theory Spec2Isabelle
  imports Complex_Main "HOL-Library.Word" "HOL-Library.Log_Nat"
begin

section \<open>CarlaServer: the session protocol engine of Source/Carla/Game/CarlaServer.cpp\<close>

text \<open>
  The engine translates live simulation values into the flat records of
  \<^verbatim>\<open><carla/carla_server.h>\<close> and exchanges them with a client through the
  functions of that library. The embedding follows the source function by function.

  \<^item> \<^verbatim>\<open>uint32\<close> and \<^verbatim>\<open>int32\<close> values are \<open>32 word\<close>; \<open>unat\<close> reads the
    unsigned and \<open>sint\<close> the signed number. A conversion between the two keeps the
    32 bits.
  \<^item> A finite \<^verbatim>\<open>float\<close> is the \<open>real\<close> number it denotes. Floats are copied from
    field to field; the one operation on them in the source, the product in the
    walker's speed, is rounded to single precision. Infinities and NaN are not
    values of the model.
  \<^item> A pointer is \<open>None\<close> when it is \<^verbatim>\<open>nullptr\<close>; a pointer to an array is the
    array it points at.
  \<^item> Everything a function does to the outside is returned: the state of the
    objects it was given by reference, and the list of its events in program
    order (log lines and calls of the transport library with their arguments).
\<close>

subsection \<open>Engine values\<close>

record FVector =
  X :: real
  Y :: real
  Z :: real

record FQuat =
  QX :: real
  QY :: real
  QZ :: real
  QW :: real

record FRotator =
  Pitch :: real
  Yaw :: real
  Roll :: real

record FTransform =
  Rotation :: FQuat
  Translation :: FVector
  Scale3D :: FVector

definition GetLocation :: "FTransform \<Rightarrow> FVector" where
  "GetLocation t = Translation t"

definition GetRotation :: "FTransform \<Rightarrow> FQuat" where
  "GetRotation t = Rotation t"

subsection \<open>Single precision\<close>

text \<open>
  Rounding a real number to the nearest \<^verbatim>\<open>float\<close> (IEEE 754 binary32: 24
  significant bits, least exponent \<open>-126\<close>, ties to the even significand).
  \<open>exponent2 x\<close> is the exponent of the power of two at or below \<open>\<bar>x\<bar>\<close>, and the
  floats near \<open>x\<close> are the multiples of \<open>2\<close> to the power \<open>exponent2 x - 23\<close>. The
  result is the one of the machine as long as it is finite, that is for
  \<open>\<bar>x\<bar> < 2 ^ 128 - 2 ^ 103\<close>.
\<close>

definition round_even :: "real \<Rightarrow> int" where
  "round_even r =
     (let f = \<lfloor>r\<rfloor>; d = r - of_int f
      in if d < 1/2 then f else if 1/2 < d then f + 1 else if even f then f else f + 1)"

definition pow2 :: "int \<Rightarrow> real" where
  "pow2 k = (if 0 \<le> k then 2 ^ nat k else 1 / 2 ^ nat (- k))"

definition exponent2 :: "real \<Rightarrow> int" where
  "exponent2 x =
     (if 1 \<le> \<bar>x\<bar> then bitlen \<lfloor>\<bar>x\<bar>\<rfloor> - 1 else - bitlen (\<lceil>1 / \<bar>x\<bar>\<rceil> - 1))"

definition round_f32 :: "real \<Rightarrow> real" where
  "round_f32 x =
     (if x = 0 then 0
      else (let ulp = pow2 (max (exponent2 x) (- 126) - 23)
            in of_int (round_even (x / ulp)) * ulp))"

text \<open>
  The product of two floats, and a decimal literal with the suffix \<^verbatim>\<open>f\<close>.
\<close>

definition mul_float :: "real \<Rightarrow> real \<Rightarrow> real" where
  "mul_float a b = round_f32 (a * b)"

definition float_literal :: "real \<Rightarrow> real" where
  "float_literal r = round_f32 r"

text \<open>
  \<open>FColor\<close> is four bytes read as one \<^verbatim>\<open>uint32\<close> by \<^verbatim>\<open>DWColor()\<close>; a pixel is
  that word.
\<close>

type_synonym FColor = "32 word"

record 'e FCapturedImage =
  SizeX :: "32 word"
  SizeY :: "32 word"
  PostProcessEffect :: 'e
  BitMap :: "FColor list"

text \<open>
  A pointer to an actor: \<open>None\<close> for \<^verbatim>\<open>nullptr\<close>, otherwise the address and the
  object found there.
\<close>

type_synonym 'a ptr = "(64 word \<times> 'a) option"

text \<open>
  Engine actors are the values their accessors return.
\<close>

record ACharacter =
  GetVelocity :: FVector
  GetActorRotation :: FRotator
  ACharacter_GetActorTransform :: FTransform

record APlayerStart =
  APlayerStart_GetActorTransform :: FTransform

text \<open>
  What the source includes through \<^verbatim>\<open>Carla.h\<close> and does not define: whether
  the macro \<^verbatim>\<open>CARLA_SERVER_EXTRA_LOG\<close> is defined, and the engine functions
  \<^verbatim>\<open>FQuat::GetForwardVector\<close>, \<^verbatim>\<open>FRotator::Vector\<close>, \<^verbatim>\<open>FVector::DotProduct\<close>,
  \<^verbatim>\<open>GetTypeHash\<close> on a pointer, the constructor \<^verbatim>\<open>FString(int32, const TCHAR*)\<close>
  and \<^verbatim>\<open>PostProcessEffect::ToUInt\<close>. They are parameters of the model.
\<close>

record 'e Carla_h =
  CARLA_SERVER_EXTRA_LOG :: bool
  GetForwardVector :: "FQuat \<Rightarrow> FVector"
  Vector :: "FRotator \<Rightarrow> FVector"
  DotProduct :: "FVector \<Rightarrow> FVector \<Rightarrow> real"
  GetTypeHash :: "64 word \<Rightarrow> 32 word"
  FString :: "32 word \<Rightarrow> string \<Rightarrow> string"
  ToUInt :: "'e \<Rightarrow> 32 word"

subsection \<open>Wire records of carla\_server.h\<close>

record carla_vector3d =
  x :: real
  y :: real
  z :: real

record carla_transform =
  location :: carla_vector3d
  orientation :: carla_vector3d

record carla_image =
  width :: "32 word"
  height :: "32 word"
  type :: "32 word"
  data :: "32 word list option"

record carla_request_new_episode =
  ini_file :: string
  ini_file_length :: "32 word"

record carla_scene_description =
  player_start_spots :: "carla_transform list"
  number_of_player_start_spots :: "32 word"

record carla_episode_start =
  player_start_spot_index :: "32 word"

record carla_episode_ready =
  ready :: bool

record carla_control =
  steer :: real
  throttle :: real
  brake :: real
  hand_brake :: bool
  reverse :: bool
  autopilot :: bool

record carla_agent =
  id' :: "32 word"
  agent_type :: "32 word"
  transform :: carla_transform
  box_extent :: carla_vector3d
  forward_speed :: real

record carla_player_measurements =
  player_transform :: carla_transform
  acceleration :: carla_vector3d
  player_forward_speed :: real
  collision_vehicles :: real
  collision_pedestrians :: real
  collision_other :: real
  intersection_otherlane :: real
  intersection_offroad :: real

record carla_measurements =
  platform_timestamp :: "32 word"
  game_timestamp :: "32 word"
  player_measurements :: carla_player_measurements
  non_player_agents :: "carla_agent list option"
  number_of_non_player_agents :: "32 word"

text \<open>
  The library itself: its result codes and agent tags, whose values the source
  does not fix, and its functions. A function takes the server behind the handle
  and its arguments, and returns what it wrote to its out-parameter, its result
  code and the server afterwards.
\<close>

record 'srv carla_server_h =
  CARLA_SERVER_SUCCESS :: "32 word"
  CARLA_SERVER_TRY_AGAIN :: "32 word"
  CARLA_SERVER_AGENT_VEHICLE :: "32 word"
  CARLA_SERVER_AGENT_PEDESTRIAN :: "32 word"
  carla_server_connect :: "'srv \<Rightarrow> 32 word \<Rightarrow> 32 word \<Rightarrow> 32 word \<times> 'srv"
  carla_read_request_new_episode ::
    "'srv \<Rightarrow> 32 word \<Rightarrow> (carla_request_new_episode \<times> 32 word) \<times> 'srv"
  carla_write_scene_description ::
    "'srv \<Rightarrow> carla_scene_description \<Rightarrow> 32 word \<Rightarrow> 32 word \<times> 'srv"
  carla_read_episode_start :: "'srv \<Rightarrow> 32 word \<Rightarrow> (carla_episode_start \<times> 32 word) \<times> 'srv"
  carla_write_episode_ready :: "'srv \<Rightarrow> carla_episode_ready \<Rightarrow> 32 word \<Rightarrow> 32 word \<times> 'srv"
  carla_read_control :: "'srv \<Rightarrow> 32 word \<Rightarrow> (carla_control \<times> 32 word) \<times> 'srv"
  carla_write_measurements ::
    "'srv \<Rightarrow> carla_measurements \<Rightarrow> carla_image list option \<Rightarrow> 32 word \<Rightarrow> 32 word \<times> 'srv"

subsection \<open>Events\<close>

datatype ELogVerbosity = Log | Warning

datatype event =
    UE_LOG ELogVerbosity string
  | Called_connect "32 word" "32 word"
  | Called_read_request_new_episode "32 word"
  | Called_write_scene_description carla_scene_description "32 word"
  | Called_read_episode_start "32 word"
  | Called_write_episode_ready carla_episode_ready "32 word"
  | Called_read_control "32 word"
  | Called_write_measurements carla_measurements "carla_image list option" "32 word"

subsection \<open>Static local methods\<close>

datatype ErrorCode = Success | TryAgain | Error

definition ParseErrorCode :: "'srv carla_server_h \<Rightarrow> 32 word \<Rightarrow> ErrorCode" where
  "ParseErrorCode lib ErrorCode =
     (if ErrorCode = CARLA_SERVER_SUCCESS lib then Success
      else if ErrorCode = CARLA_SERVER_TRY_AGAIN lib then TryAgain
      else Error)"

text \<open>
  The result is an \<^verbatim>\<open>int32\<close> made from a \<^verbatim>\<open>uint32\<close>: the same 32 bits.
\<close>

definition GetTimeOut :: "32 word \<Rightarrow> bool \<Rightarrow> 32 word" where
  "GetTimeOut TimeOut bBlocking = (if bBlocking then TimeOut else 0)"

subsection \<open>Set functions\<close>

definition Set_float :: "real \<Rightarrow> real \<Rightarrow> real" where
  "Set_float lhs rhs = rhs"

definition Set_vector3d :: "carla_vector3d \<Rightarrow> FVector \<Rightarrow> carla_vector3d" where
  "Set_vector3d lhs rhs = \<lparr>x = X rhs, y = Y rhs, z = Z rhs\<rparr>"

definition Set_transform :: "'e Carla_h \<Rightarrow> carla_transform \<Rightarrow> FTransform \<Rightarrow> carla_transform" where
  "Set_transform ue lhs rhs =
     (let lhs1 = lhs\<lparr>location := Set_vector3d (location lhs) (GetLocation rhs)\<rparr>
      in lhs1\<lparr>orientation :=
           Set_vector3d (orientation lhs1) (GetForwardVector ue (GetRotation rhs))\<rparr>)"

text \<open>
  With \<^verbatim>\<open>CARLA_SERVER_EXTRA_LOG\<close> the \<^verbatim>\<open>if\<close> has a log line in each branch;
  without it the \<^verbatim>\<open>else\<close> branch is not compiled.
\<close>

definition Set_image :: "'e Carla_h \<Rightarrow> carla_image \<Rightarrow> 'e FCapturedImage \<Rightarrow> carla_image \<times> event list" where
  "Set_image ue cImage uImage =
     (if 0 < length (BitMap uImage) then
        (cImage\<lparr>width := SizeX uImage,
                height := SizeY uImage,
                type := ToUInt ue (PostProcessEffect uImage),
                data := Some (BitMap uImage)\<rparr>,
         if CARLA_SERVER_EXTRA_LOG ue
         then [UE_LOG Log ''Sending image %dx%d (%d) type %d''] else [])
      else
        (cImage,
         if CARLA_SERVER_EXTRA_LOG ue
         then [UE_LOG Warning ''Sending empty image''] else []))"

subsection \<open>Collaborators\<close>

text \<open>
  Modelled from the spec: the classes \<^verbatim>\<open>ACarlaWheeledVehicle\<close>,
  \<^verbatim>\<open>ACarlaVehicleController\<close>, \<^verbatim>\<open>ACarlaGameState\<close> with its two spawners,
  \<^verbatim>\<open>ACarlaPlayerState\<close> and \<^verbatim>\<open>UCarlaSettings\<close> belong to this repository but
  are not in the source at hand, which only calls them. The spec describes them as
  read-only snapshots with accessors, a controller with an autopilot toggle and a
  "possessing a body" predicate that applies commands to a driven body, and a
  configuration collaborator that accepts a text blob. So an object is the record of
  what its accessors return, a setter stores its argument, and loading settings is
  a parameter.
\<close>

record ACarlaWheeledVehicle =
  ACarlaWheeledVehicle_GetActorTransform :: FTransform
  GetVehicleForwardSpeed :: real
  GetVehicleBoundsExtent :: FVector
  SteeringInput :: real
  ThrottleInput :: real
  BrakeInput :: real
  HandbrakeInput :: bool
  Reverse :: bool

definition SetSteeringInput :: "real \<Rightarrow> ACarlaWheeledVehicle \<Rightarrow> ACarlaWheeledVehicle" where
  "SetSteeringInput Value Vehicle = Vehicle\<lparr>SteeringInput := Value\<rparr>"

definition SetThrottleInput :: "real \<Rightarrow> ACarlaWheeledVehicle \<Rightarrow> ACarlaWheeledVehicle" where
  "SetThrottleInput Value Vehicle = Vehicle\<lparr>ThrottleInput := Value\<rparr>"

definition SetBrakeInput :: "real \<Rightarrow> ACarlaWheeledVehicle \<Rightarrow> ACarlaWheeledVehicle" where
  "SetBrakeInput Value Vehicle = Vehicle\<lparr>BrakeInput := Value\<rparr>"

definition SetHandbrakeInput :: "bool \<Rightarrow> ACarlaWheeledVehicle \<Rightarrow> ACarlaWheeledVehicle" where
  "SetHandbrakeInput Value Vehicle = Vehicle\<lparr>HandbrakeInput := Value\<rparr>"

definition SetReverse :: "bool \<Rightarrow> ACarlaWheeledVehicle \<Rightarrow> ACarlaWheeledVehicle" where
  "SetReverse Value Vehicle = Vehicle\<lparr>Reverse := Value\<rparr>"

text \<open>
  Modelled from the spec: \<^verbatim>\<open>ACarlaVehicleController\<close>, the controller
  collaborator, "exposes an autopilot toggle and a possessing-a-body predicate".
  It is the toggle and the vehicle it possesses, if any.
\<close>

record ACarlaVehicleController =
  AutopilotEnabled :: bool
  PossessedVehicle :: "ACarlaWheeledVehicle option"

definition SetAutopilot :: "bool \<Rightarrow> ACarlaVehicleController \<Rightarrow> ACarlaVehicleController" where
  "SetAutopilot Enable Player = Player\<lparr>AutopilotEnabled := Enable\<rparr>"

definition IsPossessingAVehicle :: "ACarlaVehicleController \<Rightarrow> bool" where
  "IsPossessingAVehicle Player = (PossessedVehicle Player \<noteq> None)"

definition GetPossessedVehicle :: "ACarlaVehicleController \<Rightarrow> ACarlaWheeledVehicle option" where
  "GetPossessedVehicle Player = PossessedVehicle Player"

text \<open>
  Modelled from the spec: the game state and its spawners, "live agent populations
  (walkers, vehicles)", as the lists and counts their accessors return. Either
  spawner may be missing.
\<close>

record AWalkerSpawnerBase =
  GetCurrentNumberOfWalkers :: "32 word"
  GetWalkersWhiteList :: "ACharacter ptr list"
  GetWalkersBlackList :: "ACharacter ptr list"

record AVehicleSpawnerBase =
  GetNumberOfSpawnedVehicles :: "32 word"
  GetVehicles :: "ACarlaWheeledVehicle ptr list"

record ACarlaGameState =
  GetWalkerSpawner :: "AWalkerSpawnerBase option"
  GetVehicleSpawner :: "AVehicleSpawnerBase option"

text \<open>
  Modelled from the spec: \<^verbatim>\<open>ACarlaPlayerState\<close>, the player's "transform,
  acceleration, speed, collision-intensity and lane-intersection scalars" and "a
  list of currently captured images"; the number of images is the length of that
  list, as an \<^verbatim>\<open>int32\<close>.
\<close>

record 'e ACarlaPlayerState =
  GetPlatformTimeStamp :: "32 word"
  GetGameTimeStamp :: "32 word"
  GetTransform :: FTransform
  GetAcceleration :: FVector
  GetForwardSpeed :: real
  GetCollisionIntensityCars :: real
  GetCollisionIntensityPedestrians :: real
  GetCollisionIntensityOther :: real
  GetOtherLaneIntersectionFactor :: real
  GetOffRoadIntersectionFactor :: real
  GetImages :: "'e FCapturedImage list"

definition GetNumberOfImages :: "'e ACarlaPlayerState \<Rightarrow> 32 word" where
  "GetNumberOfImages PlayerState = of_nat (length (GetImages PlayerState))"

subsection \<open>CarlaServer\<close>

record 'srv CarlaServer =
  WorldPort :: "32 word"
  TimeOut :: "32 word"
  Server :: 'srv

definition Connect ::
  "'srv carla_server_h \<Rightarrow> 'srv CarlaServer \<Rightarrow> ErrorCode \<times> 'srv CarlaServer \<times> event list" where
  "Connect lib this =
     (let (code, srv) = carla_server_connect lib (Server this) (WorldPort this) (TimeOut this)
      in (ParseErrorCode lib code, this\<lparr>Server := srv\<rparr>,
          [UE_LOG Log ''Waiting for the client to connect...'',
           Called_connect (WorldPort this) (TimeOut this)]))"

text \<open>
  The \<^verbatim>\<open>uint32\<close> length of the file goes to the \<^verbatim>\<open>int32\<close> count of the
  engine's \<^verbatim>\<open>FString\<close> constructor with its 32 bits. On a failed read the
  record \<open>values\<close> is not initialised and not looked at.
\<close>

definition ReadNewEpisode ::
  "'srv carla_server_h \<Rightarrow> 'e Carla_h \<Rightarrow> (string \<Rightarrow> 'settings \<Rightarrow> 'settings) \<Rightarrow>
   'srv CarlaServer \<Rightarrow> 'settings \<Rightarrow> bool \<Rightarrow>
   ErrorCode \<times> 'srv CarlaServer \<times> 'settings \<times> event list" where
  "ReadNewEpisode lib ue LoadSettingsFromString this Settings bBlocking =
     (let t = GetTimeOut (TimeOut this) bBlocking;
          ((values, code), srv) = carla_read_request_new_episode lib (Server this) t;
          ec = ParseErrorCode lib code
      in if Success = ec then
           (let IniFile = FString ue (ini_file_length values) (ini_file values)
            in (ec, this\<lparr>Server := srv\<rparr>, LoadSettingsFromString IniFile Settings,
                [Called_read_request_new_episode t, UE_LOG Log ''Received new episode''] @
                (if CARLA_SERVER_EXTRA_LOG ue
                 then [UE_LOG Log ''Received CarlaSettings.ini:\<newline>%s''] else [])))
         else (ec, this\<lparr>Server := srv\<rparr>, Settings, [Called_read_request_new_episode t]))"

text \<open>
  The start spots are dereferenced without a test, so the array holds the objects.
  Each element of the fresh array is set from the spot with the same index; the
  elements of a fresh array are zero.
\<close>

definition zero_vector3d :: carla_vector3d where
  "zero_vector3d = \<lparr>x = 0, y = 0, z = 0\<rparr>"

definition zero_transform :: carla_transform where
  "zero_transform = \<lparr>location = zero_vector3d, orientation = zero_vector3d\<rparr>"

definition SendSceneDescription ::
  "'srv carla_server_h \<Rightarrow> 'e Carla_h \<Rightarrow> 'srv CarlaServer \<Rightarrow> APlayerStart list \<Rightarrow> bool \<Rightarrow>
   ErrorCode \<times> 'srv CarlaServer \<times> event list" where
  "SendSceneDescription lib ue this AvailableStartSpots bBlocking =
     (let NumberOfStartSpots = (of_nat (length AvailableStartSpots) :: 32 word);
          StartSpots = map (\<lambda>spot. Set_transform ue zero_transform (APlayerStart_GetActorTransform spot))
                         AvailableStartSpots;
          scene = \<lparr>player_start_spots = StartSpots,
                   number_of_player_start_spots = NumberOfStartSpots\<rparr>;
          t = GetTimeOut (TimeOut this) bBlocking;
          (code, srv) = carla_write_scene_description lib (Server this) scene t
      in (ParseErrorCode lib code, this\<lparr>Server := srv\<rparr>,
          [UE_LOG Log ''Sending %d available start positions'',
           Called_write_scene_description scene t]))"

definition ReadEpisodeStart ::
  "'srv carla_server_h \<Rightarrow> 'srv CarlaServer \<Rightarrow> 32 word \<Rightarrow> bool \<Rightarrow>
   ErrorCode \<times> 'srv CarlaServer \<times> 32 word \<times> event list" where
  "ReadEpisodeStart lib this StartPositionIndex bBlocking =
     (let t = GetTimeOut (TimeOut this) bBlocking;
          ((values, code), srv) = carla_read_episode_start lib (Server this) t;
          ec = ParseErrorCode lib code
      in if Success = ec then
           (ec, this\<lparr>Server := srv\<rparr>, player_start_spot_index values,
            [Called_read_episode_start t,
             UE_LOG Log ''Episode start received: { StartIndex = %d }''])
         else (ec, this\<lparr>Server := srv\<rparr>, StartPositionIndex, [Called_read_episode_start t]))"

definition SendEpisodeReady ::
  "'srv carla_server_h \<Rightarrow> 'srv CarlaServer \<Rightarrow> bool \<Rightarrow>
   ErrorCode \<times> 'srv CarlaServer \<times> event list" where
  "SendEpisodeReady lib this bBlocking =
     (let values = \<lparr>ready = True\<rparr>;
          t = GetTimeOut (TimeOut this) bBlocking;
          (code, srv) = carla_write_episode_ready lib (Server this) values t
      in (ParseErrorCode lib code, this\<lparr>Server := srv\<rparr>,
          [UE_LOG Log ''Ready to play, notifying client'',
           Called_write_episode_ready values t]))"

text \<open>
  A failed \<^verbatim>\<open>check\<close> stops the process: the call has no result, only the fault
  and the events before it (\<^verbatim>\<open>check\<close> is taken as compiled in, as in a
  development build). The five setters are called on the vehicle the controller
  points at.
\<close>

datatype fault = check_failed string | null_dereferenced

definition ReadControl ::
  "'srv carla_server_h \<Rightarrow> 'e Carla_h \<Rightarrow> 'srv CarlaServer \<Rightarrow> ACarlaVehicleController \<Rightarrow> bool \<Rightarrow>
   fault \<times> event list + ErrorCode \<times> 'srv CarlaServer \<times> ACarlaVehicleController \<times> event list" where
  "ReadControl lib ue this Player bBlocking =
     (let t = GetTimeOut (TimeOut this) bBlocking;
          ((values, code), srv) = carla_read_control lib (Server this) t;
          ec = ParseErrorCode lib code
      in if Success = ec then
           (let Player1 = SetAutopilot (autopilot values) Player
            in if \<not> autopilot values then
                 (if \<not> IsPossessingAVehicle Player1
                  then Inl (check_failed ''Player.IsPossessingAVehicle()'', [Called_read_control t])
                  else
                    (case GetPossessedVehicle Player1 of
                       None \<Rightarrow> Inl (null_dereferenced, [Called_read_control t])
                     | Some Vehicle \<Rightarrow>
                         Inr (ec, this\<lparr>Server := srv\<rparr>,
                              Player1\<lparr>PossessedVehicle := Some
                                (SetReverse (reverse values)
                                  (SetHandbrakeInput (hand_brake values)
                                    (SetBrakeInput (brake values)
                                      (SetThrottleInput (throttle values)
                                        (SetSteeringInput (steer values) Vehicle)))))\<rparr>,
                              Called_read_control t #
                              (if CARLA_SERVER_EXTRA_LOG ue
                               then [UE_LOG Log
                                 ''Read control (%s): { Steer = %f, Throttle = %f, Brake = %f, Handbrake = %s, Reverse = %s }'']
                               else []))))
               else
                 Inr (ec, this\<lparr>Server := srv\<rparr>, Player1,
                      Called_read_control t #
                      (if CARLA_SERVER_EXTRA_LOG ue
                       then [UE_LOG Log ''Read control (%s): { Autopilot = On }''] else [])))
         else if (\<not> bBlocking) \<and> (TryAgain = ec) then
           Inr (ec, this\<lparr>Server := srv\<rparr>, Player,
                [Called_read_control t,
                 UE_LOG Warning ''No control received from the client this frame!''])
         else Inr (ec, this\<lparr>Server := srv\<rparr>, Player, [Called_read_control t]))"

subsection \<open>Non-player agents\<close>

definition SetBoxAndSpeed_walker :: "'e Carla_h \<Rightarrow> carla_agent \<Rightarrow> ACharacter \<Rightarrow> carla_agent" where
  "SetBoxAndSpeed_walker ue values Walker =
     values\<lparr>forward_speed :=
              mul_float (DotProduct ue (GetVelocity Walker) (Vector ue (GetActorRotation Walker)))
                (float_literal 0.036),
            box_extent := \<lparr>x = float_literal 45.0, y = float_literal 35.0,
                           z = float_literal 100.0\<rparr>\<rparr>"

definition SetBoxAndSpeed_vehicle :: "carla_agent \<Rightarrow> ACarlaWheeledVehicle \<Rightarrow> carla_agent" where
  "SetBoxAndSpeed_vehicle values Vehicle =
     (let values1 = values\<lparr>forward_speed := GetVehicleForwardSpeed Vehicle\<rparr>
      in values1\<lparr>box_extent :=
           Set_vector3d (box_extent values1) (GetVehicleBoundsExtent Vehicle)\<rparr>)"

text \<open>
  \<^verbatim>\<open>Agents.Emplace()\<close> appends a zero agent, which the loop body then fills.
  The template is instantiated at walkers and at vehicles: the two overloads it
  resolves, \<^verbatim>\<open>GetActorTransform\<close> and \<^verbatim>\<open>SetBoxAndSpeed\<close>, are arguments.
\<close>

definition zero_agent :: carla_agent where
  "zero_agent = \<lparr>id' = 0, agent_type = 0, transform = zero_transform,
                  box_extent = zero_vector3d, forward_speed = 0\<rparr>"

fun AddAgents ::
  "'e Carla_h \<Rightarrow> ('a \<Rightarrow> FTransform) \<Rightarrow> (carla_agent \<Rightarrow> 'a \<Rightarrow> carla_agent) \<Rightarrow>
   carla_agent list \<Rightarrow> 'a ptr list \<Rightarrow> 32 word \<Rightarrow> carla_agent list" where
  "AddAgents ue GetActorTransform SetBoxAndSpeed Agents [] type' = Agents"
| "AddAgents ue GetActorTransform SetBoxAndSpeed Agents (None # Actors) type' =
     AddAgents ue GetActorTransform SetBoxAndSpeed Agents Actors type'"
| "AddAgents ue GetActorTransform SetBoxAndSpeed Agents (Some (address, Actor) # Actors) type' =
     (let values = zero_agent;
          values = values\<lparr>id' := GetTypeHash ue address\<rparr>;
          values = values\<lparr>agent_type := type'\<rparr>;
          values = values\<lparr>transform :=
                     Set_transform ue (transform values) (GetActorTransform Actor)\<rparr>;
          values = SetBoxAndSpeed values Actor
      in AddAgents ue GetActorTransform SetBoxAndSpeed (Agents @ [values]) Actors type')"

text \<open>
  \<^verbatim>\<open>Reserve\<close> changes the capacity of an array, not its elements.
\<close>

definition Reserve :: "'a list \<Rightarrow> 32 word \<Rightarrow> 'a list" where
  "Reserve Agents Number = Agents"

definition GetAgentInfo ::
  "'srv carla_server_h \<Rightarrow> 'e Carla_h \<Rightarrow> ACarlaGameState \<Rightarrow> carla_agent list \<Rightarrow> carla_agent list" where
  "GetAgentInfo lib ue GameState Agents =
     (let WalkerSpawner = GetWalkerSpawner GameState;
          VehicleSpawner = GetVehicleSpawner GameState;
          NumberOfAgents = (0 :: 32 word);
          NumberOfAgents = (case WalkerSpawner of None \<Rightarrow> NumberOfAgents
             | Some W \<Rightarrow> NumberOfAgents + GetCurrentNumberOfWalkers W);
          NumberOfAgents = (case VehicleSpawner of None \<Rightarrow> NumberOfAgents
             | Some V \<Rightarrow> NumberOfAgents + GetNumberOfSpawnedVehicles V);
          Agents = Reserve Agents NumberOfAgents;
          Agents = (case WalkerSpawner of None \<Rightarrow> Agents
             | Some W \<Rightarrow>
                 (let Agents1 = AddAgents ue ACharacter_GetActorTransform (SetBoxAndSpeed_walker ue)
                                  Agents (GetWalkersWhiteList W) (CARLA_SERVER_AGENT_PEDESTRIAN lib)
                  in AddAgents ue ACharacter_GetActorTransform (SetBoxAndSpeed_walker ue)
                       Agents1 (GetWalkersBlackList W) (CARLA_SERVER_AGENT_PEDESTRIAN lib)))
      in (case VehicleSpawner of None \<Rightarrow> Agents
          | Some V \<Rightarrow>
              AddAgents ue ACarlaWheeledVehicle_GetActorTransform SetBoxAndSpeed_vehicle
                Agents (GetVehicles V) (CARLA_SERVER_AGENT_VEHICLE lib)))"

subsection \<open>Measurements\<close>

definition zero_image :: carla_image where
  "zero_image = \<lparr>width = 0, height = 0, type = 0, data = None\<rparr>"

text \<open>
  The loop over the captured images: element \<open>i\<close> of the wire array is set from
  image \<open>i\<close>, for \<open>i\<close> from \<open>0\<close> below the signed number of images. That number
  never exceeds the length of the list.
\<close>

definition Set_images ::
  "'e Carla_h \<Rightarrow> 'e FCapturedImage list \<Rightarrow> nat \<Rightarrow> carla_image list \<Rightarrow> carla_image list \<times> event list" where
  "Set_images ue uImages n images =
     fold (\<lambda>i (images, events).
             (let (cImage, es) = Set_image ue (images ! i) (uImages ! i)
              in (images[i := cImage], events @ es)))
          [0..<n] (images, [])"

definition SendMeasurements ::
  "'srv carla_server_h \<Rightarrow> 'e Carla_h \<Rightarrow> 'srv CarlaServer \<Rightarrow> ACarlaGameState \<Rightarrow>
   'e ACarlaPlayerState \<Rightarrow> bool \<Rightarrow> ErrorCode \<times> 'srv CarlaServer \<times> event list" where
  "SendMeasurements lib ue this GameState PlayerState bSendNonPlayerAgentsInfo =
     (let player =
            \<lparr>player_transform = Set_transform ue zero_transform (GetTransform PlayerState),
             acceleration = Set_vector3d zero_vector3d (GetAcceleration PlayerState),
             player_forward_speed = Set_float 0 (GetForwardSpeed PlayerState),
             collision_vehicles = Set_float 0 (GetCollisionIntensityCars PlayerState),
             collision_pedestrians = Set_float 0 (GetCollisionIntensityPedestrians PlayerState),
             collision_other = Set_float 0 (GetCollisionIntensityOther PlayerState),
             intersection_otherlane = Set_float 0 (GetOtherLaneIntersectionFactor PlayerState),
             intersection_offroad = Set_float 0 (GetOffRoadIntersectionFactor PlayerState)\<rparr>;
          Agents = (if bSendNonPlayerAgentsInfo then GetAgentInfo lib ue GameState [] else []);
          values =
            \<lparr>platform_timestamp = GetPlatformTimeStamp PlayerState,
             game_timestamp = GetGameTimeStamp PlayerState,
             player_measurements = player,
             non_player_agents = (if 0 < length Agents then Some Agents else None),
             number_of_non_player_agents = of_nat (length Agents)\<rparr>;
          log_agents = (if CARLA_SERVER_EXTRA_LOG ue
                        then [UE_LOG Log ''Sending data of %d agents''] else []);
          NumberOfImages = GetNumberOfImages PlayerState;
          (images, log_images) =
            (if 0 <s NumberOfImages then
               (let (images, es) = Set_images ue (GetImages PlayerState) (nat (sint NumberOfImages))
                                     (replicate (nat (sint NumberOfImages)) zero_image)
                in (Some images, es))
             else (None, []));
          (code, srv) = carla_write_measurements lib (Server this) values images NumberOfImages
      in (ParseErrorCode lib code, this\<lparr>Server := srv\<rparr>,
          log_agents @ log_images @ [Called_write_measurements values images NumberOfImages]))"

subsection \<open>Vocabulary of the properties\<close>

text \<open>
  The calls of the transport library among the events of an operation, and the
  wait a call was given (writing the measurements takes none).
\<close>

fun is_call :: "event \<Rightarrow> bool" where
  "is_call (UE_LOG verbosity message) = False"
| "is_call e = True"

definition calls :: "event list \<Rightarrow> event list" where
  "calls events = filter is_call events"

fun wait_of :: "event \<Rightarrow> 32 word option" where
  "wait_of (UE_LOG verbosity message) = None"
| "wait_of (Called_connect port t) = Some t"
| "wait_of (Called_read_request_new_episode t) = Some t"
| "wait_of (Called_write_scene_description scene t) = Some t"
| "wait_of (Called_read_episode_start t) = Some t"
| "wait_of (Called_write_episode_ready values t) = Some t"
| "wait_of (Called_read_control t) = Some t"
| "wait_of (Called_write_measurements values images n) = None"

text \<open>
  The actors of a game state, list by list (a missing spawner has none), and the
  pointers of a list that are not null.
\<close>

definition WalkersWhiteList :: "ACarlaGameState \<Rightarrow> ACharacter ptr list" where
  "WalkersWhiteList GameState =
     (case GetWalkerSpawner GameState of None \<Rightarrow> [] | Some W \<Rightarrow> GetWalkersWhiteList W)"

definition WalkersBlackList :: "ACarlaGameState \<Rightarrow> ACharacter ptr list" where
  "WalkersBlackList GameState =
     (case GetWalkerSpawner GameState of None \<Rightarrow> [] | Some W \<Rightarrow> GetWalkersBlackList W)"

definition Vehicles :: "ACarlaGameState \<Rightarrow> ACarlaWheeledVehicle ptr list" where
  "Vehicles GameState =
     (case GetVehicleSpawner GameState of None \<Rightarrow> [] | Some V \<Rightarrow> GetVehicles V)"

definition present :: "'a ptr list \<Rightarrow> (64 word \<times> 'a) list" where
  "present Actors = List.map_filter (\<lambda>Actor. Actor) Actors"

subsection \<open>Instances for the examples\<close>

text \<open>
  An engine for the examples: a unit quaternion turns the X axis into its forward
  vector, a rotator gives the direction of its pitch and yaw (in degrees), the dot
  product is rounded after each product and each sum, the hash of a pointer is its
  low 32 bits, a string of a count is that many first characters (none for a
  negative count), and an effect is its number.
\<close>

definition example_engine :: "bool \<Rightarrow> 32 word Carla_h" where
  "example_engine extra_log =
     \<lparr>CARLA_SERVER_EXTRA_LOG = extra_log,
      GetForwardVector = (\<lambda>q. \<lparr>X = 1 - 2 * (QY q * QY q + QZ q * QZ q),
                                Y = 2 * (QX q * QY q + QW q * QZ q),
                                Z = 2 * (QX q * QZ q - QW q * QY q)\<rparr>),
      Vector = (\<lambda>r. \<lparr>X = cos (Pitch r * pi / 180) * cos (Yaw r * pi / 180),
                      Y = cos (Pitch r * pi / 180) * sin (Yaw r * pi / 180),
                      Z = sin (Pitch r * pi / 180)\<rparr>),
      DotProduct = (\<lambda>A B. round_f32 (round_f32 (round_f32 (X A * X B) + round_f32 (Y A * Y B))
                                         + round_f32 (Z A * Z B))),
      GetTypeHash = (\<lambda>address. ucast address),
      FString = (\<lambda>count s. take (nat (sint count)) s),
      ToUInt = (\<lambda>effect. effect)\<rparr>"

text \<open>
  A transport for the examples: every call answers with the given code, a read
  delivers the given record, and the server counts its calls.
\<close>

definition example_lib ::
  "32 word \<Rightarrow> carla_request_new_episode \<Rightarrow> carla_episode_start \<Rightarrow> carla_control \<Rightarrow>
   nat carla_server_h" where
  "example_lib code request start control =
     \<lparr>CARLA_SERVER_SUCCESS = 0,
      CARLA_SERVER_TRY_AGAIN = 1,
      CARLA_SERVER_AGENT_VEHICLE = 0,
      CARLA_SERVER_AGENT_PEDESTRIAN = 1,
      carla_server_connect = (\<lambda>srv port t. (code, Suc srv)),
      carla_read_request_new_episode = (\<lambda>srv t. ((request, code), Suc srv)),
      carla_write_scene_description = (\<lambda>srv scene t. (code, Suc srv)),
      carla_read_episode_start = (\<lambda>srv t. ((start, code), Suc srv)),
      carla_write_episode_ready = (\<lambda>srv values t. (code, Suc srv)),
      carla_read_control = (\<lambda>srv t. ((control, code), Suc srv)),
      carla_write_measurements = (\<lambda>srv values images n. (code, Suc srv))\<rparr>"

definition example_request :: carla_request_new_episode where
  "example_request = \<lparr>ini_file = ''[CARLA/Server]'', ini_file_length = 14\<rparr>"

definition example_start :: carla_episode_start where
  "example_start = \<lparr>player_start_spot_index = 1\<rparr>"

definition manual_control :: carla_control where
  "manual_control = \<lparr>steer = 1/2, throttle = 1, brake = 0, hand_brake = False,
                      reverse = True, autopilot = False\<rparr>"

definition autopilot_control :: carla_control where
  "autopilot_control = manual_control\<lparr>autopilot := True\<rparr>"

definition example_session :: "nat CarlaServer" where
  "example_session = \<lparr>WorldPort = 2000, TimeOut = 10000, Server = 0\<rparr>"

definition origin :: FVector where
  "origin = \<lparr>X = 0, Y = 0, Z = 0\<rparr>"

definition identity_transform :: FTransform where
  "identity_transform =
     \<lparr>Rotation = \<lparr>QX = 0, QY = 0, QZ = 0, QW = 1\<rparr>,
      Translation = origin,
      Scale3D = \<lparr>X = 1, Y = 1, Z = 1\<rparr>\<rparr>"

text \<open>The same place and scale, rolled half a turn about the forward axis.\<close>

definition rolled_transform :: FTransform where
  "rolled_transform = identity_transform\<lparr>Rotation := \<lparr>QX = 1, QY = 0, QZ = 0, QW = 0\<rparr>\<rparr>"

definition example_vehicle :: ACarlaWheeledVehicle where
  "example_vehicle =
     \<lparr>ACarlaWheeledVehicle_GetActorTransform = identity_transform,
      GetVehicleForwardSpeed = 30,
      GetVehicleBoundsExtent = \<lparr>X = 230, Y = 90, Z = 75\<rparr>,
      SteeringInput = 0, ThrottleInput = 0, BrakeInput = 1,
      HandbrakeInput = True, Reverse = False\<rparr>"

definition example_walker :: ACharacter where
  "example_walker =
     \<lparr>GetVelocity = \<lparr>X = 100, Y = 0, Z = 0\<rparr>,
      GetActorRotation = \<lparr>Pitch = 0, Yaw = 0, Roll = 0\<rparr>,
      ACharacter_GetActorTransform = identity_transform\<rparr>"

definition example_player :: ACarlaVehicleController where
  "example_player = \<lparr>AutopilotEnabled = True, PossessedVehicle = Some example_vehicle\<rparr>"

definition example_game :: ACarlaGameState where
  "example_game =
     \<lparr>GetWalkerSpawner = Some
        \<lparr>GetCurrentNumberOfWalkers = 2,
         GetWalkersWhiteList = [Some (4096, example_walker), None],
         GetWalkersBlackList = [Some (8192, example_walker)]\<rparr>,
      GetVehicleSpawner = Some
        \<lparr>GetNumberOfSpawnedVehicles = 1,
         GetVehicles = [Some (12288, example_vehicle)]\<rparr>\<rparr>"

definition example_image :: "32 word FCapturedImage" where
  "example_image = \<lparr>SizeX = 2, SizeY = 1, PostProcessEffect = 1, BitMap = [255, 65535]\<rparr>"

definition empty_image :: "32 word FCapturedImage" where
  "empty_image = \<lparr>SizeX = 800, SizeY = 600, PostProcessEffect = 1, BitMap = []\<rparr>"

definition example_player_state :: "32 word FCapturedImage list \<Rightarrow> 32 word ACarlaPlayerState" where
  "example_player_state images =
     \<lparr>GetPlatformTimeStamp = 1000,
      GetGameTimeStamp = 40,
      GetTransform = identity_transform,
      GetAcceleration = origin,
      GetForwardSpeed = 0,
      GetCollisionIntensityCars = 0,
      GetCollisionIntensityPedestrians = 0,
      GetCollisionIntensityOther = 0,
      GetOtherLaneIntersectionFactor = 0,
      GetOffRoadIntersectionFactor = 0,
      GetImages = images\<rparr>"

section \<open>Properties\<close>

subsection \<open>Single precision\<close>

text \<open>
  \<open>exponent2\<close> finds the binade of a number, and \<open>round_even\<close> moves a number by at
  most one half, to the even neighbour in a tie.
\<close>

lemma exponent2_bounds:
  assumes "u \<noteq> 0"
  shows "pow2 (exponent2 u) \<le> \<bar>u\<bar> \<and> \<bar>u\<bar> < pow2 (exponent2 u + 1)"
proof (cases "1 \<le> \<bar>u\<bar>")
  case True
  let ?m = "\<lfloor>\<bar>u\<bar>\<rfloor>"
  have m: "0 < ?m" using True by linarith
  have b1: "1 \<le> bitlen ?m" using m by (simp add: bitlen_alt_def)
  from bitlen_bounds [OF m]
  have lo: "2 ^ nat (bitlen ?m - 1) \<le> ?m" and hi: "?m < 2 ^ nat (bitlen ?m)" by auto
  have lo': "(2::real) ^ nat (bitlen ?m - 1) \<le> \<bar>u\<bar>"
    using lo [unfolded le_floor_iff] by simp
  have hi': "\<bar>u\<bar> < (2::real) ^ nat (bitlen ?m)"
    using hi [unfolded floor_less_iff] by simp
  show ?thesis using True lo' hi' b1 by (simp add: exponent2_def pow2_def)
next
  case False
  let ?y = "1 / \<bar>u\<bar>"
  let ?n = "\<lceil>?y\<rceil> - 1"
  have upos: "0 < \<bar>u\<bar>" using assms by simp
  have y1: "1 < ?y" using False upos by simp
  have n: "0 < ?n" using y1 by linarith
  have b1: "1 \<le> bitlen ?n" using n by (simp add: bitlen_alt_def)
  from bitlen_bounds [OF n]
  have lo: "2 ^ nat (bitlen ?n - 1) \<le> ?n" and hi: "?n < 2 ^ nat (bitlen ?n)" by auto
  from lo have "2 ^ nat (bitlen ?n - 1) < \<lceil>?y\<rceil>" by linarith
  then have "(2::real) ^ nat (bitlen ?n - 1) < ?y"
    unfolding less_ceiling_iff by simp
  then have up: "\<bar>u\<bar> < 1 / (2::real) ^ nat (bitlen ?n - 1)"
    using upos by (simp add: field_simps)
  from hi have "\<lceil>?y\<rceil> \<le> 2 ^ nat (bitlen ?n)" by linarith
  then have "?y \<le> (2::real) ^ nat (bitlen ?n)"
    unfolding ceiling_le_iff by simp
  then have low: "1 / (2::real) ^ nat (bitlen ?n) \<le> \<bar>u\<bar>"
    using upos by (simp add: field_simps)
  have e: "exponent2 u = - bitlen ?n" using False by (simp add: exponent2_def)
  have p1: "pow2 (- bitlen ?n) = 1 / 2 ^ nat (bitlen ?n)" using b1 by (simp add: pow2_def)
  have p2: "pow2 (- bitlen ?n + 1) = 1 / 2 ^ nat (bitlen ?n - 1)"
  proof (cases "bitlen ?n = 1")
    case True then show ?thesis by (simp add: pow2_def)
  next
    case False
    then have "2 \<le> bitlen ?n" using b1 by simp
    then have "\<not> 0 \<le> - bitlen ?n + 1" "nat (- (- bitlen ?n + 1)) = nat (bitlen ?n - 1)"
      by auto
    then show ?thesis by (simp add: pow2_def)
  qed
  show ?thesis unfolding e p1 p2 using low up by simp
qed

lemma round_even_nearest: "\<bar>real_of_int (round_even r) - r\<bar> \<le> 1/2"
  unfolding round_even_def Let_def by (auto; linarith)

lemma round_even_of_int: "round_even (of_int k) = k"
  by (simp add: round_even_def)

text \<open>
  So rounding moves a number by at most half the spacing of the floats around it.
\<close>

lemma pow2_pos: "0 < pow2 k"
  by (simp add: pow2_def)

lemma round_f32_error:
  "\<bar>round_f32 u - u\<bar> \<le> pow2 (max (exponent2 u) (- 126) - 23) / 2"
proof (cases "u = 0")
  case True
  then show ?thesis using pow2_pos [of "max (exponent2 u) (- 126) - 23"]
    by (simp add: round_f32_def)
next
  case False
  let ?ulp = "pow2 (max (exponent2 u) (- 126) - 23)"
  have pos: "0 < ?ulp" by (rule pow2_pos)
  have "round_f32 u - u = (of_int (round_even (u / ?ulp)) - u / ?ulp) * ?ulp"
    using False pos by (simp add: round_f32_def Let_def field_simps)
  then have "\<bar>round_f32 u - u\<bar> = \<bar>of_int (round_even (u / ?ulp)) - u / ?ulp\<bar> * ?ulp"
    using pos by (simp add: abs_mult)
  also have "\<dots> \<le> 1/2 * ?ulp"
    using round_even_nearest [of "u / ?ulp"] pos by (intro mult_right_mono) auto
  finally show ?thesis by simp
qed

text \<open>
  The numbers of the source and of the examples.
\<close>

lemma bitlen_values: "bitlen 3 = 2" "bitlen 27 = 5" "bitlen 35 = 6" "bitlen 45 = 6" "bitlen 100 = 7"
  by code_simp+

lemma float_literal_0036: "float_literal 0.036 = 2415919 / 67108864"
  by (simp add: float_literal_def round_f32_def exponent2_def pow2_def round_even_def Let_def
      bitlen_values)

lemma float_literal_box:
  "float_literal 45.0 = 45" "float_literal 35.0 = 35" "float_literal 100.0 = 100"
  by (simp_all add: float_literal_def round_f32_def exponent2_def pow2_def round_even_def Let_def
      bitlen_values)

lemma round_f32_example: "round_f32 0 = 0" "round_f32 100 = 100"
  by (simp_all add: round_f32_def exponent2_def pow2_def round_even_def Let_def bitlen_values)

lemma mul_float_example: "mul_float 100 (2415919 / 67108864) = 7549747 / 2097152"
  by (simp add: mul_float_def round_f32_def exponent2_def pow2_def round_even_def Let_def
      bitlen_values)

subsection \<open>The loop of AddAgents\<close>

text \<open>
  The agents already in the array stay in front, and each pointer that is not null
  adds one agent behind them, in the order of the list.
\<close>

lemma AddAgents_append:
  "AddAgents ue G S Agents Actors t = Agents @ AddAgents ue G S [] Actors t"
proof (induction Actors arbitrary: Agents)
  case Nil
  show ?case by simp
next
  case (Cons a Actors)
  show ?case
  proof (cases a)
    case None
    then show ?thesis using Cons.IH [of Agents] by simp
  next
    case (Some p)
    obtain address Actor where p: "p = (address, Actor)" by (cases p)
    show ?thesis
      unfolding Some p AddAgents.simps Let_def
      by (subst Cons.IH, subst (2) Cons.IH, simp)
  qed
qed

lemma AddAgents_map:
  "AddAgents ue G S [] Actors t =
     map (\<lambda>(address, Actor).
            S (zero_agent\<lparr>id' := GetTypeHash ue address, agent_type := t,
                 transform := Set_transform ue zero_transform (G Actor)\<rparr>) Actor)
         (present Actors)"
proof (induction Actors)
  case Nil
  show ?case by (simp add: present_def)
next
  case (Cons a Actors)
  show ?case
  proof (cases a)
    case None
    then show ?thesis using Cons.IH by (simp add: present_def)
  next
    case (Some p)
    obtain address Actor where p: "p = (address, Actor)" by (cases p)
    have "AddAgents ue G S [] (a # Actors) t =
          [S (zero_agent\<lparr>id' := GetTypeHash ue address, agent_type := t,
                 transform := Set_transform ue zero_transform (G Actor)\<rparr>) Actor]
          @ AddAgents ue G S [] Actors t"
      unfolding Some p AddAgents.simps Let_def
      by (subst AddAgents_append) (simp add: zero_agent_def)
    then show ?thesis using Cons.IH by (simp add: present_def Some p)
  qed
qed

lemma walker_tags:
  "map agent_type (map (\<lambda>(address, Actor). SetBoxAndSpeed_walker ue
        (zero_agent\<lparr>id' := h address, agent_type := t, transform := T Actor\<rparr>) Actor) xs)
     = replicate (length xs) t"
  by (induction xs) (auto simp: SetBoxAndSpeed_walker_def)

lemma vehicle_tags:
  "map agent_type (map (\<lambda>(address, Actor). SetBoxAndSpeed_vehicle
        (zero_agent\<lparr>id' := h address, agent_type := t, transform := T Actor\<rparr>) Actor) xs)
     = replicate (length xs) t"
  by (induction xs) (auto simp: SetBoxAndSpeed_vehicle_def Let_def)

lemma AddAgents_walker_tags:
  "map agent_type (AddAgents ue G (SetBoxAndSpeed_walker ue) [] Actors t)
     = replicate (length (present Actors)) t"
  unfolding AddAgents_map by (rule walker_tags)

lemma AddAgents_vehicle_tags:
  "map agent_type (AddAgents ue G SetBoxAndSpeed_vehicle [] Actors t)
     = replicate (length (present Actors)) t"
  unfolding AddAgents_map by (rule vehicle_tags)

lemma GetAgentInfo_lists:
  "GetAgentInfo lib ue GameState [] =
     AddAgents ue ACharacter_GetActorTransform (SetBoxAndSpeed_walker ue) []
       (WalkersWhiteList GameState) (CARLA_SERVER_AGENT_PEDESTRIAN lib)
     @ AddAgents ue ACharacter_GetActorTransform (SetBoxAndSpeed_walker ue) []
       (WalkersBlackList GameState) (CARLA_SERVER_AGENT_PEDESTRIAN lib)
     @ AddAgents ue ACarlaWheeledVehicle_GetActorTransform SetBoxAndSpeed_vehicle []
       (Vehicles GameState) (CARLA_SERVER_AGENT_VEHICLE lib)"
proof -
  have w: "\<And>A Actors t. AddAgents ue ACharacter_GetActorTransform (SetBoxAndSpeed_walker ue) A Actors t
      = A @ AddAgents ue ACharacter_GetActorTransform (SetBoxAndSpeed_walker ue) [] Actors t"
    by (rule AddAgents_append)
  have v: "\<And>A Actors t. AddAgents ue ACarlaWheeledVehicle_GetActorTransform SetBoxAndSpeed_vehicle A Actors t
      = A @ AddAgents ue ACarlaWheeledVehicle_GetActorTransform SetBoxAndSpeed_vehicle [] Actors t"
    by (rule AddAgents_append)
  show ?thesis
    unfolding GetAgentInfo_def Let_def Reserve_def WalkersWhiteList_def WalkersBlackList_def Vehicles_def
    by (cases "GetWalkerSpawner GameState"; cases "GetVehicleSpawner GameState")
       (simp_all add: w [of "AddAgents _ _ _ _ _ _"] v [of "_ @ _"] w [of "_ # _"] v [of "_ # _"])
qed

subsection \<open>The events of one call\<close>

text \<open>
  \<open>ReadControl\<close> by the answer of the transport.
\<close>

lemma ReadControl_reply:
  assumes "carla_read_control lib (Server this) (GetTimeOut (TimeOut this) bBlocking) = ((values, code), srv)"
  shows "ReadControl lib ue this Player bBlocking =
    (if ParseErrorCode lib code = Success then
       (if autopilot values then
          Inr (Success, this\<lparr>Server := srv\<rparr>, Player\<lparr>AutopilotEnabled := True\<rparr>,
               Called_read_control (GetTimeOut (TimeOut this) bBlocking) #
               (if CARLA_SERVER_EXTRA_LOG ue
                then [UE_LOG Log ''Read control (%s): { Autopilot = On }''] else []))
        else (case PossessedVehicle Player of
                None \<Rightarrow> Inl (check_failed ''Player.IsPossessingAVehicle()'',
                            [Called_read_control (GetTimeOut (TimeOut this) bBlocking)])
              | Some Vehicle \<Rightarrow>
                  Inr (Success, this\<lparr>Server := srv\<rparr>,
                       \<lparr>AutopilotEnabled = False,
                        PossessedVehicle = Some (Vehicle\<lparr>SteeringInput := steer values,
                          ThrottleInput := throttle values, BrakeInput := brake values,
                          HandbrakeInput := hand_brake values, Reverse := reverse values\<rparr>)\<rparr>,
                       Called_read_control (GetTimeOut (TimeOut this) bBlocking) #
                       (if CARLA_SERVER_EXTRA_LOG ue
                        then [UE_LOG Log
                          ''Read control (%s): { Steer = %f, Throttle = %f, Brake = %f, Handbrake = %s, Reverse = %s }'']
                        else []))))
     else if \<not> bBlocking \<and> ParseErrorCode lib code = TryAgain then
       Inr (TryAgain, this\<lparr>Server := srv\<rparr>, Player,
            [Called_read_control (GetTimeOut (TimeOut this) bBlocking),
             UE_LOG Warning ''No control received from the client this frame!''])
     else Inr (ParseErrorCode lib code, this\<lparr>Server := srv\<rparr>, Player,
               [Called_read_control (GetTimeOut (TimeOut this) bBlocking)]))"
  unfolding ReadControl_def Let_def assms prod.case
  by (simp add: SetAutopilot_def IsPossessingAVehicle_def GetPossessedVehicle_def
       SetReverse_def SetHandbrakeInput_def SetBrakeInput_def SetThrottleInput_def SetSteeringInput_def
      split: option.splits)

text \<open>
  Setting the images only logs; \<open>SendMeasurements\<close> ends with its one call of the
  transport.
\<close>

lemma Set_image_logs: "calls (snd (Set_image ue cImage uImage)) = []"
  by (simp add: Set_image_def calls_def)

lemma Set_images_fold_logs:
  "calls (snd (fold (\<lambda>i (images, events).
             (let (cImage, es) = Set_image ue (images ! i) (uImages ! i)
              in (images[i := cImage], events @ es))) is (images, events))) = calls events"
proof (induction "is" arbitrary: images events)
  case Nil
  show ?case by simp
next
  case (Cons i "is")
  let ?step = "\<lambda>i (images, events).
             (let (cImage, es) = Set_image ue (images ! i) (uImages ! i)
              in (images[i := cImage], events @ es))"
  have step: "?step i (images, events) =
      (images[i := fst (Set_image ue (images ! i) (uImages ! i))],
       events @ snd (Set_image ue (images ! i) (uImages ! i)))"
    by (simp add: case_prod_unfold Let_def)
  have "calls (events @ snd (Set_image ue (images ! i) (uImages ! i))) = calls events"
    using Set_image_logs [of ue "images ! i" "uImages ! i"] by (simp add: calls_def)
  then show ?case
    by (simp only: fold_simps comp_apply step Cons.IH)
qed

lemma Set_images_logs: "calls (snd (Set_images ue uImages n images)) = []"
  unfolding Set_images_def Set_images_fold_logs by (simp add: calls_def)

lemma SendMeasurements_shape:
  "\<exists>values images log1 log2.
     SendMeasurements lib ue this GameState PlayerState b =
       (ParseErrorCode lib (fst (carla_write_measurements lib (Server this) values images
            (GetNumberOfImages PlayerState))),
        this\<lparr>Server := snd (carla_write_measurements lib (Server this) values images
            (GetNumberOfImages PlayerState))\<rparr>,
        log1 @ log2 @ [Called_write_measurements values images (GetNumberOfImages PlayerState)])
     \<and> calls log1 = [] \<and> calls log2 = []
     \<and> non_player_agents values =
         (if (if b then GetAgentInfo lib ue GameState [] else []) = [] then None
          else Some (if b then GetAgentInfo lib ue GameState [] else []))
     \<and> number_of_non_player_agents values =
         of_nat (length (if b then GetAgentInfo lib ue GameState [] else []))
     \<and> (\<not> 0 <s GetNumberOfImages PlayerState \<longrightarrow> images = None)"
  unfolding SendMeasurements_def Let_def case_prod_unfold
  apply (rule exI)+
  apply (rule conjI, rule refl)
  apply (simp add: calls_def Set_images_logs [unfolded calls_def])
  done

subsection \<open>Wire codec\<close>

text \<open>
  Claim C5. The wire transform holds the location of the transform, field by field,
  and the forward vector of its rotation as the orientation, and nothing else: two
  transforms with the same location and the same forward vector are encoded alike,
  whatever their roll (or scale). That the engine's forward vector has length one
  is a fact about \<^verbatim>\<open>FQuat::GetForwardVector\<close>, which is a parameter here.
\<close>

theorem Set_transform_forgets_roll:
  "location (Set_transform ue lhs T) =
     \<lparr>x = X (GetLocation T), y = Y (GetLocation T), z = Z (GetLocation T)\<rparr>
   \<and> orientation (Set_transform ue lhs T) =
       \<lparr>x = X (GetForwardVector ue (GetRotation T)),
        y = Y (GetForwardVector ue (GetRotation T)),
        z = Z (GetForwardVector ue (GetRotation T))\<rparr>
   \<and> (GetLocation T1 = GetLocation T2 \<and>
       GetForwardVector ue (GetRotation T1) = GetForwardVector ue (GetRotation T2)
       \<longrightarrow> Set_transform ue lhs1 T1 = Set_transform ue lhs2 T2)"
  by (simp add: Set_transform_def Set_vector3d_def Let_def)

theorem Set_transform_forgets_roll_witness:
  "GetLocation identity_transform = GetLocation rolled_transform
   \<and> GetForwardVector (example_engine False) (GetRotation identity_transform)
     = GetForwardVector (example_engine False) (GetRotation rolled_transform)
   \<and> GetRotation identity_transform \<noteq> GetRotation rolled_transform
   \<and> Set_transform (example_engine False) zero_transform identity_transform
     = Set_transform (example_engine False) zero_transform rolled_transform"
  using Set_transform_forgets_roll [of "example_engine False" zero_transform identity_transform
     identity_transform rolled_transform zero_transform]
  by (simp add: example_engine_def identity_transform_def rolled_transform_def
      GetLocation_def GetRotation_def)

text \<open>
  Claim C2, as the source has it. A captured image with pixels sets the four fields
  of the wire image: width, height, the number of the effect, and the buffer from
  its first pixel. An image without pixels leaves the wire image as it was (zero,
  in the fresh array of \<open>SendMeasurements\<close>); the warning "Sending empty image" is
  logged when the build defines \<^verbatim>\<open>CARLA_SERVER_EXTRA_LOG\<close>, and nothing is logged
  when it does not.
\<close>

theorem Set_image_by_buffer:
  "(BitMap uImage \<noteq> [] \<longrightarrow>
      fst (Set_image ue cImage uImage) =
        \<lparr>width = SizeX uImage, height = SizeY uImage,
         type = ToUInt ue (PostProcessEffect uImage), data = Some (BitMap uImage)\<rparr>)
   \<and> (BitMap uImage = [] \<longrightarrow>
      Set_image ue cImage uImage =
        (cImage, if CARLA_SERVER_EXTRA_LOG ue
                 then [UE_LOG Warning ''Sending empty image''] else []))"
  by (simp add: Set_image_def)

theorem Set_image_by_buffer_witness:
  "BitMap example_image \<noteq> [] \<and> BitMap empty_image = []
   \<and> fst (Set_image (example_engine True) zero_image example_image) =
       \<lparr>width = 2, height = 1, type = 1, data = Some [255, 65535]\<rparr>
   \<and> Set_image (example_engine True) zero_image empty_image =
       (zero_image, [UE_LOG Warning ''Sending empty image''])
   \<and> Set_image (example_engine False) zero_image empty_image = (zero_image, [])"
  using Set_image_by_buffer [of example_image "example_engine True" zero_image]
        Set_image_by_buffer [of empty_image "example_engine True" zero_image]
        Set_image_by_buffer [of empty_image "example_engine False" zero_image]
  by (simp add: example_image_def empty_image_def example_engine_def)

text \<open>
  Claim C2, as the spec has it, fails: in a build without
  \<^verbatim>\<open>CARLA_SERVER_EXTRA_LOG\<close> an image without pixels is converted without any
  diagnostic.
\<close>

theorem Set_image_empty_silent:
  "BitMap empty_image = [] \<and> \<not> CARLA_SERVER_EXTRA_LOG (example_engine False)
   \<and> Set_image (example_engine False) zero_image empty_image = (zero_image, [])"
  by (simp add: Set_image_def empty_image_def example_engine_def)

subsection \<open>Timeouts\<close>

text \<open>
  Claim C4. Each of the five operations that take a blocking flag is what one call
  of its transport function returns, and that call is given the session's
  \<open>TimeOut\<close> as its wait when \<open>bBlocking\<close> is true and \<open>0\<close> when it is false: the
  result code, the server afterwards, the out-parameter and the events are all
  those of the call with that wait, and it is the only call. For \<open>ReadControl\<close>
  this holds also when the call is followed by the failed check. The wait is the
  32 bits that \<open>GetTimeOut\<close> returns.
\<close>

theorem blocking_flag_selects_wait:
  "(let w = (if bBlocking then TimeOut this else 0) in
     ReadNewEpisode lib ue Load this Settings bBlocking =
       (case carla_read_request_new_episode lib (Server this) w of
          ((request, code), srv) \<Rightarrow>
            (ParseErrorCode lib code, this\<lparr>Server := srv\<rparr>,
             if ParseErrorCode lib code = Success
             then Load (FString ue (ini_file_length request) (ini_file request)) Settings
             else Settings,
             Called_read_request_new_episode w #
             (if ParseErrorCode lib code = Success
              then UE_LOG Log ''Received new episode'' #
                   (if CARLA_SERVER_EXTRA_LOG ue
                    then [UE_LOG Log ''Received CarlaSettings.ini:\<newline>%s''] else [])
              else [])))
     \<and> SendSceneDescription lib ue this Spots bBlocking =
       (let scene = \<lparr>player_start_spots =
                        map (\<lambda>spot. Set_transform ue zero_transform
                                      (APlayerStart_GetActorTransform spot)) Spots,
                      number_of_player_start_spots = of_nat (length Spots)\<rparr>
        in case carla_write_scene_description lib (Server this) scene w of
             (code, srv) \<Rightarrow>
               (ParseErrorCode lib code, this\<lparr>Server := srv\<rparr>,
                [UE_LOG Log ''Sending %d available start positions'',
                 Called_write_scene_description scene w]))
     \<and> ReadEpisodeStart lib this Index bBlocking =
       (case carla_read_episode_start lib (Server this) w of
          ((start, code), srv) \<Rightarrow>
            (ParseErrorCode lib code, this\<lparr>Server := srv\<rparr>,
             if ParseErrorCode lib code = Success then player_start_spot_index start else Index,
             Called_read_episode_start w #
             (if ParseErrorCode lib code = Success
              then [UE_LOG Log ''Episode start received: { StartIndex = %d }''] else [])))
     \<and> SendEpisodeReady lib this bBlocking =
       (case carla_write_episode_ready lib (Server this) \<lparr>ready = True\<rparr> w of
          (code, srv) \<Rightarrow>
            (ParseErrorCode lib code, this\<lparr>Server := srv\<rparr>,
             [UE_LOG Log ''Ready to play, notifying client'',
              Called_write_episode_ready \<lparr>ready = True\<rparr> w]))
     \<and> ReadControl lib ue this Player bBlocking =
       (case carla_read_control lib (Server this) w of
          ((control, code), srv) \<Rightarrow>
            if ParseErrorCode lib code = Success then
              (if autopilot control then
                 Inr (Success, this\<lparr>Server := srv\<rparr>, Player\<lparr>AutopilotEnabled := True\<rparr>,
                      Called_read_control w #
                      (if CARLA_SERVER_EXTRA_LOG ue
                       then [UE_LOG Log ''Read control (%s): { Autopilot = On }''] else []))
               else (case PossessedVehicle Player of
                       None \<Rightarrow> Inl (check_failed ''Player.IsPossessingAVehicle()'',
                                      [Called_read_control w])
                     | Some Vehicle \<Rightarrow>
                         Inr (Success, this\<lparr>Server := srv\<rparr>,
                              \<lparr>AutopilotEnabled = False,
                               PossessedVehicle = Some (Vehicle\<lparr>SteeringInput := steer control,
                                 ThrottleInput := throttle control, BrakeInput := brake control,
                                 HandbrakeInput := hand_brake control,
                                 Reverse := reverse control\<rparr>)\<rparr>,
                              Called_read_control w #
                              (if CARLA_SERVER_EXTRA_LOG ue
                               then [UE_LOG Log
                                 ''Read control (%s): { Steer = %f, Throttle = %f, Brake = %f, Handbrake = %s, Reverse = %s }'']
                               else []))))
            else if \<not> bBlocking \<and> ParseErrorCode lib code = TryAgain then
              Inr (TryAgain, this\<lparr>Server := srv\<rparr>, Player,
                   [Called_read_control w,
                    UE_LOG Warning ''No control received from the client this frame!''])
            else Inr (ParseErrorCode lib code, this\<lparr>Server := srv\<rparr>, Player,
                      [Called_read_control w]))
     \<and> map wait_of (calls (snd (snd (snd (ReadNewEpisode lib ue Load this Settings bBlocking)))))
         = [Some w]
     \<and> map wait_of (calls (snd (snd (SendSceneDescription lib ue this Spots bBlocking))))
         = [Some w]
     \<and> map wait_of (calls (snd (snd (snd (ReadEpisodeStart lib this Index bBlocking)))))
         = [Some w]
     \<and> map wait_of (calls (snd (snd (SendEpisodeReady lib this bBlocking)))) = [Some w]
     \<and> map wait_of (calls (case ReadControl lib ue this Player bBlocking of
                              Inl (f, events) \<Rightarrow> events
                            | Inr (ec, this', Player', events) \<Rightarrow> events))
         = [Some w])"
proof -
  define w where "w = (if bBlocking then TimeOut this else 0)"
  have t: "GetTimeOut (TimeOut this) bBlocking = w"
    by (simp add: GetTimeOut_def w_def)
  have flip: "(Success = e) = (e = Success)" for e :: ErrorCode
    by (rule eq_commute)
  have rne: "ReadNewEpisode lib ue Load this Settings bBlocking =
       (case carla_read_request_new_episode lib (Server this) w of
          ((request, code), srv) \<Rightarrow>
            (ParseErrorCode lib code, this\<lparr>Server := srv\<rparr>,
             if ParseErrorCode lib code = Success
             then Load (FString ue (ini_file_length request) (ini_file request)) Settings
             else Settings,
             Called_read_request_new_episode w #
             (if ParseErrorCode lib code = Success
              then UE_LOG Log ''Received new episode'' #
                   (if CARLA_SERVER_EXTRA_LOG ue
                    then [UE_LOG Log ''Received CarlaSettings.ini:\<newline>%s''] else [])
              else [])))"
    unfolding ReadNewEpisode_def t Let_def flip by (simp split: prod.splits)
  have ssd: "SendSceneDescription lib ue this Spots bBlocking =
       (let scene = \<lparr>player_start_spots =
                        map (\<lambda>spot. Set_transform ue zero_transform
                                      (APlayerStart_GetActorTransform spot)) Spots,
                      number_of_player_start_spots = of_nat (length Spots)\<rparr>
        in case carla_write_scene_description lib (Server this) scene w of
             (code, srv) \<Rightarrow>
               (ParseErrorCode lib code, this\<lparr>Server := srv\<rparr>,
                [UE_LOG Log ''Sending %d available start positions'',
                 Called_write_scene_description scene w]))"
    unfolding SendSceneDescription_def t Let_def by (simp split: prod.splits)
  have res: "ReadEpisodeStart lib this Index bBlocking =
       (case carla_read_episode_start lib (Server this) w of
          ((start, code), srv) \<Rightarrow>
            (ParseErrorCode lib code, this\<lparr>Server := srv\<rparr>,
             if ParseErrorCode lib code = Success then player_start_spot_index start else Index,
             Called_read_episode_start w #
             (if ParseErrorCode lib code = Success
              then [UE_LOG Log ''Episode start received: { StartIndex = %d }''] else [])))"
    unfolding ReadEpisodeStart_def t Let_def flip by (simp split: prod.splits)
  have ser: "SendEpisodeReady lib this bBlocking =
       (case carla_write_episode_ready lib (Server this) \<lparr>ready = True\<rparr> w of
          (code, srv) \<Rightarrow>
            (ParseErrorCode lib code, this\<lparr>Server := srv\<rparr>,
             [UE_LOG Log ''Ready to play, notifying client'',
              Called_write_episode_ready \<lparr>ready = True\<rparr> w]))"
    unfolding SendEpisodeReady_def t Let_def by (simp split: prod.splits)
  obtain control code srv where
    reply: "carla_read_control lib (Server this) (GetTimeOut (TimeOut this) bBlocking)
              = ((control, code), srv)"
    by (metis surj_pair)
  have rc: "ReadControl lib ue this Player bBlocking =
       (case carla_read_control lib (Server this) w of
          ((control, code), srv) \<Rightarrow>
            if ParseErrorCode lib code = Success then
              (if autopilot control then
                 Inr (Success, this\<lparr>Server := srv\<rparr>, Player\<lparr>AutopilotEnabled := True\<rparr>,
                      Called_read_control w #
                      (if CARLA_SERVER_EXTRA_LOG ue
                       then [UE_LOG Log ''Read control (%s): { Autopilot = On }''] else []))
               else (case PossessedVehicle Player of
                       None \<Rightarrow> Inl (check_failed ''Player.IsPossessingAVehicle()'',
                                      [Called_read_control w])
                     | Some Vehicle \<Rightarrow>
                         Inr (Success, this\<lparr>Server := srv\<rparr>,
                              \<lparr>AutopilotEnabled = False,
                               PossessedVehicle = Some (Vehicle\<lparr>SteeringInput := steer control,
                                 ThrottleInput := throttle control, BrakeInput := brake control,
                                 HandbrakeInput := hand_brake control,
                                 Reverse := reverse control\<rparr>)\<rparr>,
                              Called_read_control w #
                              (if CARLA_SERVER_EXTRA_LOG ue
                               then [UE_LOG Log
                                 ''Read control (%s): { Steer = %f, Throttle = %f, Brake = %f, Handbrake = %s, Reverse = %s }'']
                               else []))))
            else if \<not> bBlocking \<and> ParseErrorCode lib code = TryAgain then
              Inr (TryAgain, this\<lparr>Server := srv\<rparr>, Player,
                   [Called_read_control w,
                    UE_LOG Warning ''No control received from the client this frame!''])
            else Inr (ParseErrorCode lib code, this\<lparr>Server := srv\<rparr>, Player,
                      [Called_read_control w]))"
    unfolding ReadControl_reply [OF reply] reply [unfolded t] t prod.case ..
  have w1: "map wait_of (calls (snd (snd (snd (ReadNewEpisode lib ue Load this Settings bBlocking)))))
         = [Some w]"
    unfolding rne by (simp add: calls_def split: prod.splits)
  have w2: "map wait_of (calls (snd (snd (SendSceneDescription lib ue this Spots bBlocking))))
         = [Some w]"
    unfolding ssd Let_def by (simp add: calls_def split: prod.splits)
  have w3: "map wait_of (calls (snd (snd (snd (ReadEpisodeStart lib this Index bBlocking)))))
         = [Some w]"
    unfolding res by (simp add: calls_def split: prod.splits)
  have w4: "map wait_of (calls (snd (snd (SendEpisodeReady lib this bBlocking)))) = [Some w]"
    unfolding ser by (simp add: calls_def split: prod.splits)
  have w5: "map wait_of (calls (case ReadControl lib ue this Player bBlocking of
                              Inl (f, events) \<Rightarrow> events
                            | Inr (ec, this', Player', events) \<Rightarrow> events))
         = [Some w]"
    unfolding ReadControl_reply [OF reply] t
    by (simp add: calls_def split: option.splits)
  show ?thesis
    unfolding Let_def w_def [symmetric]
    using rne ssd [unfolded Let_def] res ser rc w1 w2 w3 w4 w5 by (intro conjI)
qed

subsection \<open>The handshake\<close>

text \<open>
  Claim C9. Whatever the transport, the session and the blocking flag,
  \<open>SendEpisodeReady\<close> is what one call of \<open>carla_write_episode_ready\<close> with the
  record \<open>{ready = true}\<close> returns, and that call is its only one. A second call,
  on the session the first one leaves, hands the transport the same record with
  the same wait.
\<close>

theorem SendEpisodeReady_always_true:
  "SendEpisodeReady lib this bBlocking =
     (case carla_write_episode_ready lib (Server this) \<lparr>ready = True\<rparr>
             (GetTimeOut (TimeOut this) bBlocking) of
        (code, srv) \<Rightarrow>
          (ParseErrorCode lib code, this\<lparr>Server := srv\<rparr>,
           [UE_LOG Log ''Ready to play, notifying client'',
            Called_write_episode_ready \<lparr>ready = True\<rparr> (GetTimeOut (TimeOut this) bBlocking)]))
   \<and> (case SendEpisodeReady lib this bBlocking of (ec1, this1, events1) \<Rightarrow>
        calls events1 =
          [Called_write_episode_ready \<lparr>ready = True\<rparr> (GetTimeOut (TimeOut this) bBlocking)]
        \<and> (case SendEpisodeReady lib this1 bBlocking of (ec2, this2, events2) \<Rightarrow>
             calls events2 = calls events1
             \<and> ec2 = ParseErrorCode lib
                  (fst (carla_write_episode_ready lib (Server this1) \<lparr>ready = True\<rparr>
                          (GetTimeOut (TimeOut this) bBlocking)))
             \<and> this2 = this1\<lparr>Server :=
                  snd (carla_write_episode_ready lib (Server this1) \<lparr>ready = True\<rparr>
                          (GetTimeOut (TimeOut this) bBlocking))\<rparr>))"
  by (simp add: SendEpisodeReady_def calls_def Let_def split: prod.splits)

text \<open>
  Claim C10. A read that does not succeed leaves its out-parameter alone: when
  \<open>ReadNewEpisode\<close> returns \<open>TryAgain\<close> or \<open>Error\<close> the settings are the ones it was
  given, and when \<open>ReadEpisodeStart\<close> returns \<open>TryAgain\<close> or \<open>Error\<close> the start
  index is the one it was given. On \<open>Success\<close> the settings are loaded from the
  string the engine makes of \<open>ini_file_length\<close> and the file received.
\<close>

theorem reads_keep_out_parameter_on_failure:
  "(fst (ReadNewEpisode lib ue LoadSettingsFromString this Settings bBlocking) \<in> {TryAgain, Error}
      \<longrightarrow> fst (snd (snd (ReadNewEpisode lib ue LoadSettingsFromString this Settings bBlocking)))
            = Settings)
   \<and> (fst (ReadEpisodeStart lib this StartPositionIndex bBlocking) \<in> {TryAgain, Error}
      \<longrightarrow> fst (snd (snd (ReadEpisodeStart lib this StartPositionIndex bBlocking)))
            = StartPositionIndex)
   \<and> (fst (ReadNewEpisode lib ue LoadSettingsFromString this Settings bBlocking) = Success
      \<longrightarrow> fst (snd (snd (ReadNewEpisode lib ue LoadSettingsFromString this Settings bBlocking)))
            = (let request = fst (fst (carla_read_request_new_episode lib (Server this)
                                         (GetTimeOut (TimeOut this) bBlocking)))
               in LoadSettingsFromString
                    (FString ue (ini_file_length request) (ini_file request)) Settings))"
  by (auto simp add: ReadNewEpisode_def ReadEpisodeStart_def Let_def
      split: prod.splits if_splits)

theorem reads_keep_out_parameter_on_failure_witness:
  "fst (ReadNewEpisode (example_lib 1 example_request example_start manual_control)
          (example_engine False) (\<lambda>IniFile Settings. IniFile) example_session ''old'' False)
     = TryAgain
   \<and> fst (snd (snd (ReadNewEpisode (example_lib 1 example_request example_start manual_control)
          (example_engine False) (\<lambda>IniFile Settings. IniFile) example_session ''old'' False)))
     = ''old''
   \<and> fst (ReadEpisodeStart (example_lib 7 example_request example_start manual_control)
          example_session 5 True) = Error
   \<and> fst (snd (snd (ReadEpisodeStart (example_lib 7 example_request example_start manual_control)
          example_session 5 True))) = 5
   \<and> fst (ReadNewEpisode (example_lib 0 example_request example_start manual_control)
          (example_engine False) (\<lambda>IniFile Settings. IniFile) example_session ''old'' True)
     = Success
   \<and> fst (snd (snd (ReadNewEpisode (example_lib 0 example_request example_start manual_control)
          (example_engine False) (\<lambda>IniFile Settings. IniFile) example_session ''old'' True)))
     = ''[CARLA/Server]''"
proof -
  have 1: "fst (ReadNewEpisode (example_lib 1 example_request example_start manual_control)
          (example_engine False) (\<lambda>IniFile Settings. IniFile) example_session ''old'' False)
          = TryAgain"
    by (simp add: ReadNewEpisode_def Let_def example_lib_def ParseErrorCode_def)
  have 2: "fst (ReadEpisodeStart (example_lib 7 example_request example_start manual_control)
          example_session 5 True) = Error"
    by (simp add: ReadEpisodeStart_def Let_def example_lib_def ParseErrorCode_def)
  have 3: "fst (ReadNewEpisode (example_lib 0 example_request example_start manual_control)
          (example_engine False) (\<lambda>IniFile Settings. IniFile) example_session ''old'' True)
          = Success"
    by (simp add: ReadNewEpisode_def Let_def example_lib_def ParseErrorCode_def)
  have request: "fst (fst (carla_read_request_new_episode
          (example_lib 0 example_request example_start manual_control) (Server example_session)
          (GetTimeOut (TimeOut example_session) True))) = example_request"
    by (simp add: example_lib_def)
  have ini: "FString (example_engine False) (ini_file_length example_request)
               (ini_file example_request) = ''[CARLA/Server]''"
    by (simp add: example_request_def example_engine_def)
  show ?thesis
    using 1 2 3
      reads_keep_out_parameter_on_failure
        [of "example_lib 1 example_request example_start manual_control"
          "example_engine False" "\<lambda>IniFile Settings. IniFile" example_session "''old''" False 5]
      reads_keep_out_parameter_on_failure
        [of "example_lib 7 example_request example_start manual_control"
          "example_engine False" "\<lambda>IniFile Settings. IniFile" example_session "''old''" True 5]
      reads_keep_out_parameter_on_failure
        [of "example_lib 0 example_request example_start manual_control"
          "example_engine False" "\<lambda>IniFile Settings. IniFile" example_session "''old''" True 5]
    by (simp add: request ini Let_def)
qed

subsection \<open>The tick\<close>

text \<open>
  Claim C3. When the transport delivers a command with \<open>Success\<close>: a command with
  autopilot on makes the controller's autopilot flag true and touches nothing
  else; a manual command to a controller that possesses no vehicle ends in the
  failed check, which is a fault and no \<open>ErrorCode\<close>; a manual command to a
  controller that possesses a vehicle makes the flag false and gives the vehicle
  all five inputs of the command, steer, throttle, brake, handbrake and reverse.
\<close>

theorem ReadControl_applies_command:
  assumes reply: "carla_read_control lib (Server this) (GetTimeOut (TimeOut this) bBlocking)
                    = ((values, code), srv)"
      and success: "ParseErrorCode lib code = Success"
  shows "if autopilot values then
           (\<exists>events. ReadControl lib ue this Player bBlocking =
              Inr (Success, this\<lparr>Server := srv\<rparr>, Player\<lparr>AutopilotEnabled := True\<rparr>, events))
         else
           (case PossessedVehicle Player of
              None \<Rightarrow>
                (\<exists>events. ReadControl lib ue this Player bBlocking =
                   Inl (check_failed ''Player.IsPossessingAVehicle()'', events))
            | Some Vehicle \<Rightarrow>
                (\<exists>events. ReadControl lib ue this Player bBlocking =
                   Inr (Success, this\<lparr>Server := srv\<rparr>,
                        \<lparr>AutopilotEnabled = False,
                         PossessedVehicle = Some (Vehicle\<lparr>SteeringInput := steer values,
                           ThrottleInput := throttle values, BrakeInput := brake values,
                           HandbrakeInput := hand_brake values, Reverse := reverse values\<rparr>)\<rparr>,
                        events)))"
  unfolding ReadControl_reply [OF reply] using success
  by (simp split: option.splits)

theorem ReadControl_applies_command_witness:
  "(\<exists>events. ReadControl (example_lib 0 example_request example_start manual_control)
         (example_engine False) example_session example_player True =
     Inr (Success, example_session\<lparr>Server := 1\<rparr>,
          \<lparr>AutopilotEnabled = False,
           PossessedVehicle = Some (example_vehicle\<lparr>SteeringInput := 1/2, ThrottleInput := 1,
              BrakeInput := 0, HandbrakeInput := False, Reverse := True\<rparr>)\<rparr>,
          events))
   \<and> (\<exists>events. ReadControl (example_lib 0 example_request example_start manual_control)
         (example_engine False) example_session (example_player\<lparr>PossessedVehicle := None\<rparr>) True =
         Inl (check_failed ''Player.IsPossessingAVehicle()'', events))
   \<and> (\<exists>events. ReadControl (example_lib 0 example_request example_start autopilot_control)
         (example_engine False) example_session (example_player\<lparr>AutopilotEnabled := False\<rparr>) True =
         Inr (Success, example_session\<lparr>Server := 1\<rparr>, example_player, events))"
proof -
  let ?m = "example_lib 0 example_request example_start manual_control"
  let ?a = "example_lib 0 example_request example_start autopilot_control"
  have rm: "carla_read_control ?m (Server example_session) (GetTimeOut (TimeOut example_session) True)
              = ((manual_control, 0), 1)"
    by (simp add: example_lib_def example_session_def)
  have ra: "carla_read_control ?a (Server example_session) (GetTimeOut (TimeOut example_session) True)
              = ((autopilot_control, 0), 1)"
    by (simp add: example_lib_def example_session_def)
  have sm: "ParseErrorCode ?m 0 = Success" by (simp add: ParseErrorCode_def example_lib_def)
  have sa: "ParseErrorCode ?a 0 = Success" by (simp add: ParseErrorCode_def example_lib_def)
  have 1: "\<exists>events. ReadControl ?m (example_engine False) example_session example_player True =
     Inr (Success, example_session\<lparr>Server := 1\<rparr>,
          \<lparr>AutopilotEnabled = False,
           PossessedVehicle = Some (example_vehicle\<lparr>SteeringInput := 1/2, ThrottleInput := 1,
              BrakeInput := 0, HandbrakeInput := False, Reverse := True\<rparr>)\<rparr>, events)"
    using ReadControl_applies_command [OF rm sm, of "example_engine False" example_player]
    by (simp add: manual_control_def example_player_def)
  have 2: "\<exists>events. ReadControl ?m (example_engine False) example_session
         (example_player\<lparr>PossessedVehicle := None\<rparr>) True =
         Inl (check_failed ''Player.IsPossessingAVehicle()'', events)"
    using ReadControl_applies_command [OF rm sm, of "example_engine False"
        "example_player\<lparr>PossessedVehicle := None\<rparr>"]
    by (simp add: manual_control_def)
  have 3: "\<exists>events. ReadControl ?a (example_engine False) example_session
         (example_player\<lparr>AutopilotEnabled := False\<rparr>) True =
         Inr (Success, example_session\<lparr>Server := 1\<rparr>, example_player, events)"
    using ReadControl_applies_command [OF ra sa, of "example_engine False"
        "example_player\<lparr>AutopilotEnabled := False\<rparr>"]
    by (simp add: autopilot_control_def manual_control_def example_player_def)
  show ?thesis by (rule conjI [OF 1 conjI [OF 2 3]])
qed

text \<open>
  Claim C7. When the transport has nothing for a non-blocking \<open>ReadControl\<close>, the
  call returns \<open>TryAgain\<close> to its caller, with the controller and its vehicle as
  they were and one warning logged after the read. Conversely, whenever a
  non-blocking \<open>ReadControl\<close> returns \<open>TryAgain\<close>, the controller is unchanged and
  the warning is the only thing logged.
\<close>

theorem ReadControl_TryAgain_keeps_controller:
  "(ParseErrorCode lib (snd (fst (carla_read_control lib (Server this) 0))) = TryAgain \<longrightarrow>
      ReadControl lib ue this Player False =
        Inr (TryAgain, this\<lparr>Server := snd (carla_read_control lib (Server this) 0)\<rparr>, Player,
             [Called_read_control 0,
              UE_LOG Warning ''No control received from the client this frame!'']))
   \<and> (\<forall>this' Player' events.
        ReadControl lib ue this Player False = Inr (TryAgain, this', Player', events) \<longrightarrow>
          Player' = Player \<and>
          events = [Called_read_control 0,
                    UE_LOG Warning ''No control received from the client this frame!''])"
proof -
  obtain vals code srv where
    reply: "carla_read_control lib (Server this) (GetTimeOut (TimeOut this) False)
              = ((vals, code), srv)"
    by (metis surj_pair)
  then have reply0: "carla_read_control lib (Server this) 0 = ((vals, code), srv)"
    by (simp add: GetTimeOut_def)
  show ?thesis
    unfolding ReadControl_reply [OF reply] reply0
    by (simp add: GetTimeOut_def split: option.splits)
qed

theorem ReadControl_TryAgain_keeps_controller_witness:
  "ParseErrorCode (example_lib 1 example_request example_start manual_control)
     (snd (fst (carla_read_control (example_lib 1 example_request example_start manual_control)
                  (Server example_session) 0))) = TryAgain
   \<and> ReadControl (example_lib 1 example_request example_start manual_control)
       (example_engine False) example_session example_player False =
       Inr (TryAgain, example_session\<lparr>Server := 1\<rparr>, example_player,
            [Called_read_control 0,
             UE_LOG Warning ''No control received from the client this frame!''])"
proof -
  let ?lib = "example_lib 1 example_request example_start manual_control"
  have parse: "ParseErrorCode ?lib (snd (fst (carla_read_control ?lib (Server example_session) 0)))
                 = TryAgain"
    by (simp add: example_lib_def ParseErrorCode_def)
  have srv: "snd (carla_read_control ?lib (Server example_session) 0) = 1"
    by (simp add: example_lib_def example_session_def)
  have "ReadControl ?lib (example_engine False) example_session example_player False =
        Inr (TryAgain,
             example_session\<lparr>Server := snd (carla_read_control ?lib (Server example_session) 0)\<rparr>,
             example_player,
             [Called_read_control 0,
              UE_LOG Warning ''No control received from the client this frame!''])"
    using ReadControl_TryAgain_keeps_controller
            [of ?lib example_session "example_engine False" example_player,
             THEN conjunct1, rule_format, OF parse] .
  then have "ReadControl ?lib (example_engine False) example_session example_player False =
        Inr (TryAgain, example_session\<lparr>Server := 1\<rparr>, example_player,
             [Called_read_control 0,
              UE_LOG Warning ''No control received from the client this frame!''])"
    unfolding srv .
  with parse show ?thesis by (rule conjI)
qed

subsection \<open>Measurements\<close>

text \<open>
  Claim C1. With non-player agents reported, \<open>SendMeasurements\<close> returns what its
  one call of \<open>carla_write_measurements\<close> returns, and the agents of the
  measurements it hands to that call are those of the walkers' white list, then
  those of the walkers' black list, then those of the vehicles, one for each
  pointer that is not null; the first two groups carry the pedestrian tag and the
  third the vehicle tag, and the count handed over is the length of the list. With
  two walkers and one vehicle the list has three agents, tagged pedestrian,
  pedestrian, vehicle.
\<close>

theorem agents_whitelist_blacklist_vehicles:
  "\<exists>values images n.
     calls (snd (snd (SendMeasurements lib ue this GameState PlayerState True))) =
       [Called_write_measurements values images n]
     \<and> fst (SendMeasurements lib ue this GameState PlayerState True) =
         ParseErrorCode lib (fst (carla_write_measurements lib (Server this) values images n))
     \<and> fst (snd (SendMeasurements lib ue this GameState PlayerState True)) =
         this\<lparr>Server := snd (carla_write_measurements lib (Server this) values images n)\<rparr>
     \<and> (let Agents =
            AddAgents ue ACharacter_GetActorTransform (SetBoxAndSpeed_walker ue) []
              (WalkersWhiteList GameState) (CARLA_SERVER_AGENT_PEDESTRIAN lib)
            @ AddAgents ue ACharacter_GetActorTransform (SetBoxAndSpeed_walker ue) []
              (WalkersBlackList GameState) (CARLA_SERVER_AGENT_PEDESTRIAN lib)
            @ AddAgents ue ACarlaWheeledVehicle_GetActorTransform SetBoxAndSpeed_vehicle []
              (Vehicles GameState) (CARLA_SERVER_AGENT_VEHICLE lib)
          in non_player_agents values = (if Agents = [] then None else Some Agents)
             \<and> number_of_non_player_agents values = of_nat (length Agents)
             \<and> map agent_type Agents =
                 replicate (length (present (WalkersWhiteList GameState)))
                   (CARLA_SERVER_AGENT_PEDESTRIAN lib)
                 @ replicate (length (present (WalkersBlackList GameState)))
                   (CARLA_SERVER_AGENT_PEDESTRIAN lib)
                 @ replicate (length (present (Vehicles GameState)))
                   (CARLA_SERVER_AGENT_VEHICLE lib)
             \<and> (length (present (WalkersWhiteList GameState))
                  + length (present (WalkersBlackList GameState)) = 2
                \<and> length (present (Vehicles GameState)) = 1
                \<longrightarrow> length Agents = 3
                    \<and> number_of_non_player_agents values = 3
                    \<and> non_player_agents values = Some Agents
                    \<and> map agent_type Agents =
                        [CARLA_SERVER_AGENT_PEDESTRIAN lib, CARLA_SERVER_AGENT_PEDESTRIAN lib,
                         CARLA_SERVER_AGENT_VEHICLE lib]))"
proof -
  let ?W = "AddAgents ue ACharacter_GetActorTransform (SetBoxAndSpeed_walker ue) []
              (WalkersWhiteList GameState) (CARLA_SERVER_AGENT_PEDESTRIAN lib)"
  let ?B = "AddAgents ue ACharacter_GetActorTransform (SetBoxAndSpeed_walker ue) []
              (WalkersBlackList GameState) (CARLA_SERVER_AGENT_PEDESTRIAN lib)"
  let ?V = "AddAgents ue ACarlaWheeledVehicle_GetActorTransform SetBoxAndSpeed_vehicle []
              (Vehicles GameState) (CARLA_SERVER_AGENT_VEHICLE lib)"
  let ?P = "CARLA_SERVER_AGENT_PEDESTRIAN lib"
  let ?C = "CARLA_SERVER_AGENT_VEHICLE lib"
  let ?nw = "length (present (WalkersWhiteList GameState))"
  let ?nb = "length (present (WalkersBlackList GameState))"
  let ?nv = "length (present (Vehicles GameState))"
  from SendMeasurements_shape [of lib ue this GameState PlayerState True]
  obtain vals images log1 log2 where
    shape: "SendMeasurements lib ue this GameState PlayerState True =
       (ParseErrorCode lib (fst (carla_write_measurements lib (Server this) vals images
            (GetNumberOfImages PlayerState))),
        this\<lparr>Server := snd (carla_write_measurements lib (Server this) vals images
            (GetNumberOfImages PlayerState))\<rparr>,
        log1 @ log2 @ [Called_write_measurements vals images (GetNumberOfImages PlayerState)])"
    and logs: "calls log1 = []" "calls log2 = []"
    and agents0: "non_player_agents vals =
         (if (if True then GetAgentInfo lib ue GameState [] else []) = [] then None
          else Some (if True then GetAgentInfo lib ue GameState [] else []))"
    and number0: "number_of_non_player_agents vals =
         of_nat (length (if True then GetAgentInfo lib ue GameState [] else []))"
    by blast
  have call: "calls (snd (snd (SendMeasurements lib ue this GameState PlayerState True))) =
             [Called_write_measurements vals images (GetNumberOfImages PlayerState)]"
    unfolding shape using logs by (simp add: calls_def)
  have code: "fst (SendMeasurements lib ue this GameState PlayerState True) =
         ParseErrorCode lib (fst (carla_write_measurements lib (Server this) vals images
            (GetNumberOfImages PlayerState)))"
    unfolding shape by simp
  have server: "fst (snd (SendMeasurements lib ue this GameState PlayerState True)) =
         this\<lparr>Server := snd (carla_write_measurements lib (Server this) vals images
            (GetNumberOfImages PlayerState))\<rparr>"
    unfolding shape by simp
  have agents: "non_player_agents vals =
                   (if ?W @ ?B @ ?V = [] then None else Some (?W @ ?B @ ?V))"
    using agents0 by (simp only: if_True GetAgentInfo_lists)
  have number: "number_of_non_player_agents vals = of_nat (length (?W @ ?B @ ?V))"
    using number0 by (simp only: if_True GetAgentInfo_lists)
  have tags: "map agent_type (?W @ ?B @ ?V) = replicate ?nw ?P @ replicate ?nb ?P @ replicate ?nv ?C"
    by (simp only: map_append AddAgents_walker_tags AddAgents_vehicle_tags)
  have len: "length (?W @ ?B @ ?V) = ?nw + ?nb + ?nv"
    using arg_cong [OF tags, of length] by simp
  have three: "length (?W @ ?B @ ?V) = 3 \<and> number_of_non_player_agents vals = 3
      \<and> non_player_agents vals = Some (?W @ ?B @ ?V)
      \<and> map agent_type (?W @ ?B @ ?V) = [?P, ?P, ?C]"
    if two: "?nw + ?nb = 2" and one: "?nv = 1"
  proof -
    have l3: "length (?W @ ?B @ ?V) = 3" using len two one by simp
    then have ne: "?W @ ?B @ ?V \<noteq> []" by (metis length_0_conv zero_neq_numeral)
    have "replicate ?nw ?P @ replicate ?nb ?P = replicate 2 ?P"
      using two by (metis replicate_add)
    then have "map agent_type (?W @ ?B @ ?V) = replicate 2 ?P @ replicate 1 ?C"
      using tags one by simp
    then have t3: "map agent_type (?W @ ?B @ ?V) = [?P, ?P, ?C]"
      by (simp add: numeral_2_eq_2)
    show ?thesis using l3 ne t3 agents number by simp
  qed
  show ?thesis
    unfolding Let_def
    apply (rule exI [of _ vals], rule exI [of _ images], rule exI [of _ "GetNumberOfImages PlayerState"])
    using call code server agents number tags three by blast
qed

theorem agents_whitelist_blacklist_vehicles_witness:
  "\<exists>values images n.
     calls (snd (snd (SendMeasurements (example_lib 0 example_request example_start manual_control)
        (example_engine False) example_session example_game (example_player_state []) True))) =
       [Called_write_measurements values images n]
     \<and> fst (SendMeasurements (example_lib 0 example_request example_start manual_control)
        (example_engine False) example_session example_game (example_player_state []) True) =
       ParseErrorCode (example_lib 0 example_request example_start manual_control)
         (fst (carla_write_measurements (example_lib 0 example_request example_start manual_control)
                 (Server example_session) values images n))
     \<and> number_of_non_player_agents values = 3
     \<and> map_option (map agent_type) (non_player_agents values) = Some [1, 1, 0]"
proof -
  let ?lib = "example_lib 0 example_request example_start manual_control"
  have two: "length (present (WalkersWhiteList example_game))
             + length (present (WalkersBlackList example_game)) = 2"
    by (simp add: present_def WalkersWhiteList_def WalkersBlackList_def example_game_def)
  have one: "length (present (Vehicles example_game)) = 1"
    by (simp add: present_def Vehicles_def example_game_def)
  have tags: "CARLA_SERVER_AGENT_PEDESTRIAN ?lib = 1" "CARLA_SERVER_AGENT_VEHICLE ?lib = 0"
    by (simp_all add: example_lib_def)
  from agents_whitelist_blacklist_vehicles [of ?lib "example_engine False" example_session example_game
      "example_player_state []"]
  show ?thesis
    unfolding Let_def tags using two one
    by (elim exE conjE) (intro exI conjI, assumption, assumption, simp, simp)
qed
text \<open>
  Claim C6. For a walker the forward speed is the dot product of its velocity with
  the direction of its rotation, times \<open>0.036\<close>, in the arithmetic of the source:
  the literal is the float nearest to \<open>0.036\<close>, which is \<open>2415919 / 67108864\<close>,
  and the product is rounded to a float. The box is \<open>(45, 35, 100)\<close>. For a vehicle
  both are what the vehicle answers. The same holds for every agent that
  \<open>AddAgents\<close> appends, in the order of the actors.
\<close>

theorem kinematics_per_kind:
  "forward_speed (SetBoxAndSpeed_walker ue values Walker) =
     round_f32 (DotProduct ue (GetVelocity Walker) (Vector ue (GetActorRotation Walker))
                * float_literal 0.036)
   \<and> float_literal 0.036 = 2415919 / 67108864
   \<and> \<bar>float_literal 0.036 - 0.036\<bar> < 1 / 2 ^ 29
   \<and> box_extent (SetBoxAndSpeed_walker ue values Walker) = \<lparr>x = 45, y = 35, z = 100\<rparr>
   \<and> forward_speed (SetBoxAndSpeed_vehicle values Vehicle) = GetVehicleForwardSpeed Vehicle
   \<and> box_extent (SetBoxAndSpeed_vehicle values Vehicle) =
       \<lparr>x = X (GetVehicleBoundsExtent Vehicle), y = Y (GetVehicleBoundsExtent Vehicle),
        z = Z (GetVehicleBoundsExtent Vehicle)\<rparr>
   \<and> map (\<lambda>agent. (forward_speed agent, box_extent agent))
         (AddAgents ue ACharacter_GetActorTransform (SetBoxAndSpeed_walker ue) Agents Walkers t)
     = map (\<lambda>agent. (forward_speed agent, box_extent agent)) Agents
       @ map (\<lambda>(address, Walker).
                (round_f32 (DotProduct ue (GetVelocity Walker) (Vector ue (GetActorRotation Walker))
                            * float_literal 0.036),
                 \<lparr>x = 45, y = 35, z = 100\<rparr>))
             (present Walkers)
   \<and> map (\<lambda>agent. (forward_speed agent, box_extent agent))
         (AddAgents ue ACarlaWheeledVehicle_GetActorTransform SetBoxAndSpeed_vehicle Agents Actors t)
     = map (\<lambda>agent. (forward_speed agent, box_extent agent)) Agents
       @ map (\<lambda>(address, Vehicle).
                (GetVehicleForwardSpeed Vehicle,
                 \<lparr>x = X (GetVehicleBoundsExtent Vehicle), y = Y (GetVehicleBoundsExtent Vehicle),
                  z = Z (GetVehicleBoundsExtent Vehicle)\<rparr>))
             (present Actors)"
proof (intro conjI)
  show "forward_speed (SetBoxAndSpeed_walker ue values Walker) =
     round_f32 (DotProduct ue (GetVelocity Walker) (Vector ue (GetActorRotation Walker))
                * float_literal 0.036)"
    by (simp add: SetBoxAndSpeed_walker_def mul_float_def)
  show "float_literal 0.036 = 2415919 / 67108864"
    by (rule float_literal_0036)
  show "\<bar>float_literal 0.036 - 0.036\<bar> < 1 / 2 ^ 29"
    unfolding float_literal_0036 by simp
  show "box_extent (SetBoxAndSpeed_walker ue values Walker) = \<lparr>x = 45, y = 35, z = 100\<rparr>"
    using float_literal_box by (simp add: SetBoxAndSpeed_walker_def)
  show "forward_speed (SetBoxAndSpeed_vehicle values Vehicle) = GetVehicleForwardSpeed Vehicle"
    by (simp add: SetBoxAndSpeed_vehicle_def Let_def)
  show "box_extent (SetBoxAndSpeed_vehicle values Vehicle) =
       \<lparr>x = X (GetVehicleBoundsExtent Vehicle), y = Y (GetVehicleBoundsExtent Vehicle),
        z = Z (GetVehicleBoundsExtent Vehicle)\<rparr>"
    by (simp add: SetBoxAndSpeed_vehicle_def Let_def Set_vector3d_def)
  show "map (\<lambda>agent. (forward_speed agent, box_extent agent))
         (AddAgents ue ACharacter_GetActorTransform (SetBoxAndSpeed_walker ue) Agents Walkers t)
     = map (\<lambda>agent. (forward_speed agent, box_extent agent)) Agents
       @ map (\<lambda>(address, Walker).
                (round_f32 (DotProduct ue (GetVelocity Walker) (Vector ue (GetActorRotation Walker))
                            * float_literal 0.036),
                 \<lparr>x = 45, y = 35, z = 100\<rparr>))
             (present Walkers)"
    using float_literal_box
    by (subst AddAgents_append, simp only: AddAgents_map map_append map_map)
       (simp add: SetBoxAndSpeed_walker_def mul_float_def comp_def case_prod_unfold)
  show "map (\<lambda>agent. (forward_speed agent, box_extent agent))
         (AddAgents ue ACarlaWheeledVehicle_GetActorTransform SetBoxAndSpeed_vehicle Agents Actors t)
     = map (\<lambda>agent. (forward_speed agent, box_extent agent)) Agents
       @ map (\<lambda>(address, Vehicle).
                (GetVehicleForwardSpeed Vehicle,
                 \<lparr>x = X (GetVehicleBoundsExtent Vehicle), y = Y (GetVehicleBoundsExtent Vehicle),
                  z = Z (GetVehicleBoundsExtent Vehicle)\<rparr>))
             (present Actors)"
    by (subst AddAgents_append, simp only: AddAgents_map map_append map_map)
       (simp add: SetBoxAndSpeed_vehicle_def Let_def Set_vector3d_def comp_def case_prod_unfold)
qed

text \<open>
  The example walker moves at \<open>100\<close> along its heading: its speed on the wire is
  the float \<open>7549747 / 2097152\<close>, just below \<open>3.6\<close>.
\<close>

theorem kinematics_per_kind_witness:
  "forward_speed (SetBoxAndSpeed_walker (example_engine False) zero_agent example_walker)
     = 7549747 / 2097152
   \<and> box_extent (SetBoxAndSpeed_walker (example_engine False) zero_agent example_walker)
     = \<lparr>x = 45, y = 35, z = 100\<rparr>
   \<and> forward_speed (SetBoxAndSpeed_vehicle zero_agent example_vehicle) = 30
   \<and> box_extent (SetBoxAndSpeed_vehicle zero_agent example_vehicle) = \<lparr>x = 230, y = 90, z = 75\<rparr>"
proof -
  note k = kinematics_per_kind [of "example_engine False" zero_agent example_walker
      example_vehicle "[]" "[]" 0 "[]"]
  have dot: "DotProduct (example_engine False) (GetVelocity example_walker)
               (Vector (example_engine False) (GetActorRotation example_walker)) = 100"
    by (simp add: example_engine_def example_walker_def round_f32_example)
  have product: "round_f32 (100 * (2415919 / 67108864)) = 7549747 / 2097152"
    using mul_float_example by (simp only: mul_float_def)
  have speed: "forward_speed (SetBoxAndSpeed_walker (example_engine False) zero_agent
                 example_walker) = 7549747 / 2097152"
    using k [THEN conjunct1] unfolding dot k [THEN conjunct2, THEN conjunct1] product .
  have box: "box_extent (SetBoxAndSpeed_walker (example_engine False) zero_agent example_walker)
               = \<lparr>x = 45, y = 35, z = 100\<rparr>"
    using k by blast
  have vspeed: "forward_speed (SetBoxAndSpeed_vehicle zero_agent example_vehicle) = 30"
    using k [THEN conjunct2, THEN conjunct2, THEN conjunct2, THEN conjunct2, THEN conjunct1]
    by (simp add: example_vehicle_def)
  have vbox: "box_extent (SetBoxAndSpeed_vehicle zero_agent example_vehicle)
               = \<lparr>x = 230, y = 90, z = 75\<rparr>"
    using k [THEN conjunct2, THEN conjunct2, THEN conjunct2, THEN conjunct2, THEN conjunct2,
             THEN conjunct1]
    by (simp add: example_vehicle_def)
  show ?thesis by (intro conjI speed box vspeed vbox)
qed

text \<open>
  Claim C8. With no captured image, \<open>SendMeasurements\<close> passes a null image array
  and the count \<open>0\<close> to its one write, and returns what the write returns: in
  particular \<open>Success\<close> when the write succeeds.
\<close>

theorem SendMeasurements_without_images:
  assumes "GetImages PlayerState = []"
  shows "\<exists>values.
     calls (snd (snd (SendMeasurements lib ue this GameState PlayerState b))) =
       [Called_write_measurements values None 0]
     \<and> fst (SendMeasurements lib ue this GameState PlayerState b) =
         ParseErrorCode lib (fst (carla_write_measurements lib (Server this) values None 0))
     \<and> (fst (carla_write_measurements lib (Server this) values None 0) = CARLA_SERVER_SUCCESS lib
        \<longrightarrow> fst (SendMeasurements lib ue this GameState PlayerState b) = Success)"
proof -
  have N: "GetNumberOfImages PlayerState = 0"
    using assms by (simp add: GetNumberOfImages_def)
  obtain vals images log1 log2 where
    shape: "SendMeasurements lib ue this GameState PlayerState b =
       (ParseErrorCode lib (fst (carla_write_measurements lib (Server this) vals images 0)),
        this\<lparr>Server := snd (carla_write_measurements lib (Server this) vals images 0)\<rparr>,
        log1 @ log2 @ [Called_write_measurements vals images 0])"
    and logs: "calls log1 = []" "calls log2 = []"
    and null: "images = None"
    using SendMeasurements_shape [of lib ue this GameState PlayerState b] unfolding N
    by auto
  have "calls (log1 @ log2 @ [Called_write_measurements vals None 0]) =
        [Called_write_measurements vals None 0]"
    using logs by (simp add: calls_def)
  then show ?thesis
    unfolding shape null by (intro exI [of _ vals]) (simp add: ParseErrorCode_def)
qed

theorem SendMeasurements_without_images_witness:
  "GetImages (example_player_state []) = []
   \<and> fst (SendMeasurements (example_lib 0 example_request example_start manual_control)
        (example_engine False) example_session example_game (example_player_state []) True)
     = Success"
  using SendMeasurements_without_images [of "example_player_state []"
     "example_lib 0 example_request example_start manual_control" "example_engine False"
     example_session example_game True]
  by (auto simp add: example_player_state_def example_lib_def)

end
